theory Spec2Isabelle
  imports Main "HOL-Library.Word"
begin

unbundle bit_operations_syntax

section \<open>Python values shared by the parser and the delta decoder\<close>

text \<open>
  The source is Python 2: a \<open>str\<close> is a sequence of bytes, modelled as \<open>string\<close>;
  a \<open>unicode\<close> object is a sequence of code points, modelled as \<open>nat list\<close>.
  Every exception the modelled code can raise is a value of \<open>error\<close>.
  \<open>Raised c msg\<close> is an instance of a class of \<open>mercury/exceptions.py\<close>.
\<close>

datatype error =
    NameError string
  | UnboundLocalError string
  | IndexError
  | ValueError
  | TypeError
  | UnicodeDecodeError
  | StopIteration
  | Raised string string

text \<open>The classes \<open>from mercury.exceptions import *\<close> brings into a module's scope.\<close>

definition exceptions_names :: "string list" where
  "exceptions_names =
     [''MercuryException'', ''MercurialNotFound'', ''AlreadyConnected'', ''ProtocolError'',
      ''CapabilityError'', ''ChannelError'', ''PipeError'', ''CommandError'',
      ''RemoteRepositoryError'', ''BadBinaryHunk'', ''BadFieldError'',
      ''NotARepositoryError'', ''BadBinaryDeltaError'']"

text \<open>
  \<open>raise Cls(msg)\<close>: the name \<open>Cls\<close> is looked up first; a name that no import
  defines raises NameError instead of the intended exception.
\<close>

definition raise_exc :: "string \<Rightarrow> string \<Rightarrow> error" where
  "raise_exc c msg = (if c \<in> set exceptions_names then Raised c msg else NameError c)"

section \<open>Linebuffer (diffparser.py)\<close>

text \<open>
  \<open>lb_f\<close> is the field \<open>self.f\<close>: the lines the wrapped iterator has still to
  deliver; \<open>buffered\<close> is \<open>self.buffered\<close>.
\<close>

record linebuffer =
  lb_f :: "string list"
  buffered :: "string list"

text \<open>\<open>Linebuffer.next\<close>: \<open>buffered.pop(0)\<close> when the buffer is non-empty, else \<open>f.next()\<close>.\<close>

definition lb_next :: "linebuffer \<Rightarrow> error + (string \<times> linebuffer)" where
  "lb_next s =
     (case buffered s of
        b # bs \<Rightarrow> Inr (b, s\<lparr>buffered := bs\<rparr>)
      | [] \<Rightarrow> (case lb_f s of
                 [] \<Rightarrow> Inl StopIteration
               | l # ls \<Rightarrow> Inr (l, s\<lparr>lb_f := ls\<rparr>)))"

text \<open>\<open>Linebuffer.push\<close>: \<open>buffered.append(line)\<close>.\<close>

definition push :: "linebuffer \<Rightarrow> string \<Rightarrow> linebuffer" where
  "push s line = s\<lparr>buffered := buffered s @ [line]\<rparr>"

text \<open>\<open>Linebuffer.readline\<close>: \<open>next\<close>, with StopIteration turned into the empty string.\<close>

definition readline :: "linebuffer \<Rightarrow> string \<times> linebuffer" where
  "readline s = (case lb_next s of Inl _ \<Rightarrow> ('''', s) | Inr r \<Rightarrow> r)"

text \<open>Helper for stating properties: \<open>n\<close> successive calls of \<open>next\<close>.\<close>

fun next_n :: "nat \<Rightarrow> linebuffer \<Rightarrow> error + (string list \<times> linebuffer)" where
  "next_n 0 s = Inr ([], s)"
| "next_n (Suc n) s =
     (case lb_next s of
        Inl e \<Rightarrow> Inl e
      | Inr (l, s') \<Rightarrow> (case next_n n s' of
                          Inl e \<Rightarrow> Inl e
                        | Inr (ls, s'') \<Rightarrow> Inr (l # ls, s'')))"

section \<open>The delta decoder (utils.py)\<close>

type_synonym byte = "8 word"

text \<open>
  \<open>decode_delta\<close> indexes its argument and applies \<open>&\<close> to the element. A Python 2
  \<open>str\<close> yields one-character strings there, a \<open>bytearray\<close> yields integers
  \<open>0..255\<close>; both are byte strings.
\<close>

datatype pybytes = Str string | Bytearray "byte list"

text \<open>
  What the generator yields: \<open>(offset, 'source', src_offset, size)\<close> and
  \<open>(offset, 'delta', bytes)\<close>.
\<close>

datatype instr = Source int int int | Delta int "byte list"

text \<open>\<open>delta[ptr]\<close> raises IndexError past the end.\<close>

definition delta_at :: "byte list \<Rightarrow> nat \<Rightarrow> error + int" where
  "delta_at delta ptr = (if ptr < length delta then Inr (uint (delta ! ptr)) else Inl IndexError)"

text \<open>
  One line \<open>if cmd & flag: v |= delta[ptr] << sh; ptr += 1\<close> of the copy branch
  (the first line of each group assigns instead, to a variable that is 0).
\<close>

definition operand :: "byte list \<Rightarrow> byte \<Rightarrow> byte \<Rightarrow> nat \<Rightarrow> int \<times> nat \<Rightarrow> error + (int \<times> nat)" where
  "operand delta cmd flag sh = (\<lambda>(v, ptr).
     if cmd AND flag \<noteq> 0
     then (case delta_at delta ptr of
             Inl e \<Rightarrow> Inl e
           | Inr b \<Rightarrow> Inr (v OR push_bit sh b, ptr + 1))
     else Inr (v, ptr))"

definition then_e :: "error + 'a \<Rightarrow> ('a \<Rightarrow> error + 'b) \<Rightarrow> error + 'b" where
  "then_e r k = (case r of Inl e \<Rightarrow> Inl e | Inr x \<Rightarrow> k x)"

text \<open>The seven operand lines of the copy branch: \<open>(src_offset, size, ptr)\<close> after them.\<close>

definition copy_operands :: "byte list \<Rightarrow> byte \<Rightarrow> nat \<Rightarrow> error + (int \<times> int \<times> nat)" where
  "copy_operands delta cmd ptr =
     then_e (operand delta cmd 0x01 0 (0, ptr)) (\<lambda>a.
     then_e (operand delta cmd 0x02 8 a) (\<lambda>a.
     then_e (operand delta cmd 0x04 16 a) (\<lambda>a.
     then_e (operand delta cmd 0x08 24 a) (\<lambda>(src_offset, ptr).
     then_e (operand delta cmd 0x10 0 (0, ptr)) (\<lambda>a.
     then_e (operand delta cmd 0x20 8 a) (\<lambda>a.
     then_e (operand delta cmd 0x40 16 a) (\<lambda>(size, ptr).
     Inr (src_offset, size, ptr))))))))"

text \<open>A generator's run: the items yielded, then how it ended (None: exhausted).\<close>

type_synonym 'a gen = "'a list \<times> error option"

definition yield :: "'a \<Rightarrow> 'a gen \<Rightarrow> 'a gen" where
  "yield x g = (x # fst g, snd g)"

lemma operand_ptr: "operand delta cmd b sh (v, ptr) = Inr (v', ptr') \<Longrightarrow> ptr \<le> ptr'"
  by (auto simp: operand_def split: if_splits sum.splits)

lemma copy_operands_ptr:
  assumes "copy_operands delta cmd ptr = Inr (so, sz, ptr')"
  shows "ptr \<le> ptr'"
proof -
  from assms obtain a1 a2 a3 a4 b1 b2 b3 where
    s: "operand delta cmd 0x01 0 (0, ptr) = Inr a1" "operand delta cmd 0x02 8 a1 = Inr a2"
       "operand delta cmd 0x04 16 a2 = Inr a3" "operand delta cmd 0x08 24 a3 = Inr a4"
       "operand delta cmd 0x10 0 (0, snd a4) = Inr b1" "operand delta cmd 0x20 8 b1 = Inr b2"
       "operand delta cmd 0x40 16 b2 = Inr b3" "snd b3 = ptr'"
    by (auto simp: copy_operands_def then_e_def split: sum.splits prod.splits)
  have "ptr \<le> snd a1" using s(1) operand_ptr by (cases a1) auto
  also have "\<dots> \<le> snd a2" using s(2) operand_ptr by (cases a1; cases a2) auto
  also have "\<dots> \<le> snd a3" using s(3) operand_ptr by (cases a2; cases a3) auto
  also have "\<dots> \<le> snd a4" using s(4) operand_ptr by (cases a3; cases a4) auto
  also have "\<dots> \<le> snd b1" using s(5) operand_ptr by (cases b1) auto
  also have "\<dots> \<le> snd b2" using s(6) operand_ptr by (cases b1; cases b2) auto
  also have "\<dots> \<le> snd b3" using s(7) operand_ptr by (cases b2; cases b3) auto
  finally show ?thesis using s(8) by simp
qed

text \<open>
  The \<open>while ptr < dlen\<close> loop. \<open>todo\<close> is the local variable of that name:
  \<open>None\<close> while it is unbound; the function never assigns it before \<open>todo -= size\<close>.
  The literal branch advances neither \<open>ptr\<close> nor \<open>offset\<close> after its yield.
\<close>

function decode_delta_loop :: "byte list \<Rightarrow> nat \<Rightarrow> int \<Rightarrow> int option \<Rightarrow> instr gen" where
  "decode_delta_loop delta ptr offset todo =
     (if ptr < length delta then
        (let cmd = delta ! ptr; ptr1 = ptr + 1 in
         if cmd AND 0x80 \<noteq> 0 then
           (case copy_operands delta cmd ptr1 of
              Inl e \<Rightarrow> ([], Some e)
            | Inr (src_offset, size0, ptr2) \<Rightarrow>
                (let size = (if size0 = 0 then 0x10000 else size0) in
                 yield (Source offset src_offset size)
                   (case todo of
                      None \<Rightarrow> ([], Some (UnboundLocalError ''todo''))
                    | Some t \<Rightarrow> decode_delta_loop delta ptr2 (offset + size) (Some (t - size)))))
         else if cmd \<noteq> 0 then
           (if int ptr1 + uint cmd > int (length delta)
            then ([], Some (raise_exc ''BadBinaryDelta'' ''delta was truncated''))
            else yield (Delta offset (take (unat cmd) (drop ptr1 delta)))
                   (decode_delta_loop delta ptr1 offset todo))
         else ([], Some (raise_exc ''BadBinaryDelta'' ''unknown opcode 0x00'')))
      else ([], None))"
  by pat_completeness auto
termination
  by (relation "measure (\<lambda>(delta, ptr, offset, todo). length delta - ptr)")
     (auto dest: copy_operands_ptr)

declare decode_delta_loop.simps [simp del]

text \<open>\<open>decode_delta\<close>: \<open>ptr = 0\<close>, \<open>offset = 0\<close>, no \<open>todo\<close>.\<close>

definition decode_delta :: "pybytes \<Rightarrow> instr gen" where
  "decode_delta d =
     (case d of
        Bytearray delta \<Rightarrow> decode_delta_loop delta 0 0 None
      | Str s \<Rightarrow> (if 0 < length s then ([], Some TypeError) else ([], None)))"


section \<open>Changes and hunks (change.py)\<close>

text \<open>A name is a Python 2 \<open>str\<close> (bytes) or a \<open>unicode\<close> object (code points).\<close>

datatype pystr = S string | U "nat list"

text \<open>\<open>TextHunk\<close>: \<open>lines\<close> is the list of \<open>(marker, text)\<close> pairs.\<close>

record text_hunk =
  start_a :: int
  len_a :: int
  start_b :: int
  len_b :: int
  lines :: "(char \<times> string) list"

text \<open>\<open>BinaryHunk\<close>: \<open>blength\<close> is the attribute \<open>length\<close>, \<open>hunk_method\<close> the attribute \<open>method\<close>.\<close>

record binary_hunk =
  blength :: int
  hunk_method :: string
  data :: string
  reverse :: bool

datatype hunk = Text text_hunk | Binary binary_hunk

definition new_TextHunk :: "int \<Rightarrow> int \<Rightarrow> int \<Rightarrow> int \<Rightarrow> text_hunk" where
  "new_TextHunk sa la sb lb =
     \<lparr>start_a = sa, len_a = la, start_b = sb, len_b = lb, lines = []\<rparr>"

text \<open>\<open>TextHunk.fix_final_newline\<close>; \<open>self.lines[-1]\<close> raises IndexError on an empty list.\<close>

definition endswith :: "string \<Rightarrow> string \<Rightarrow> bool" where
  "endswith s p = (length p \<le> length s \<and> drop (length s - length p) s = p)"

definition startswith :: "string \<Rightarrow> string \<Rightarrow> bool" where
  "startswith s p = (take (length p) s = p)"

definition fix_final_newline :: "text_hunk \<Rightarrow> error + text_hunk" where
  "fix_final_newline h =
     (if lines h = [] then Inl IndexError
      else
        (let l = last (lines h);
             nl = (if endswith (snd l) [CHR 0x0D, CHR 0x0A]
                   then take (length (snd l) - 2) (snd l)
                   else take (length (snd l) - 1) (snd l))
         in Inr (h\<lparr>lines := butlast (lines h) @ [(fst l, nl)]\<rparr>)))"

text \<open>
  The class of a change object: \<open>Change\<close> itself or one of its four subclasses, so
  \<open>isinstance(change, Rename)\<close> is \<open>cls change = Rename\<close>. The attributes
  \<open>old_mode\<close>, \<open>new_mode\<close>, \<open>similarity\<close> and \<open>dissimilarity\<close> are \<open>None\<close>
  both when the object has no such attribute and when it holds Python's \<open>None\<close>.
\<close>

datatype cls = Change | Rename | Copy | Delete | Add

record change =
  cls :: cls
  binary :: bool
  hunks :: "hunk list"
  source :: "pystr option"
  dest :: "pystr option"
  old_mode :: "int option"
  new_mode :: "int option"
  similarity :: "int option"
  dissimilarity :: "int option"

text \<open>The constructors: every \<open>__init__\<close> starts from \<open>binary = False\<close>, \<open>hunks = []\<close>.\<close>

definition new_Change :: "pystr option \<Rightarrow> pystr option \<Rightarrow> change" where
  "new_Change src dst =
     \<lparr>cls = Change, binary = False, hunks = [], source = src, dest = dst,
      old_mode = None, new_mode = None, similarity = None, dissimilarity = None\<rparr>"

definition new_Rename :: "pystr option \<Rightarrow> pystr option \<Rightarrow> change" where
  "new_Rename src dst = (new_Change src dst)\<lparr>cls := Rename\<rparr>"

definition new_Copy :: "pystr option \<Rightarrow> pystr option \<Rightarrow> change" where
  "new_Copy src dst = (new_Change src dst)\<lparr>cls := Copy\<rparr>"

definition new_Delete :: "pystr option \<Rightarrow> int option \<Rightarrow> change" where
  "new_Delete src mode = (new_Change src None)\<lparr>cls := Delete, old_mode := mode\<rparr>"

definition new_Add :: "pystr option \<Rightarrow> int option \<Rightarrow> change" where
  "new_Add dst mode = (new_Change None dst)\<lparr>cls := Add, new_mode := mode\<rparr>"

section \<open>Hunk headers (diffparser.py)\<close>

text \<open>
  The regular expressions are matched by hand-written recognisers. \<open>\s\<close> and \<open>\d\<close>
  are those of a byte pattern without flags; the character classes that follow one another
  in the patterns are disjoint, so the greedy match is the only one.
\<close>

definition is_space :: "char \<Rightarrow> bool" where
  "is_space c = (c \<in> set [CHR '' '', CHR 0x09, CHR 0x0A, CHR 0x0B, CHR 0x0C, CHR 0x0D])"

definition is_digit :: "char \<Rightarrow> bool" where
  "is_digit c = (48 \<le> (of_char c :: nat) \<and> (of_char c :: nat) \<le> 57)"

definition re_lit :: "string \<Rightarrow> string \<Rightarrow> string option" where
  "re_lit p s = (if startswith s p then Some (drop (length p) s) else None)"

text \<open>\<open>\s+\<close>\<close>

definition re_spaces :: "string \<Rightarrow> string option" where
  "re_spaces s = (if s \<noteq> [] \<and> is_space (hd s) then Some (dropWhile is_space s) else None)"

text \<open>\<open>(\d+)\<close>: the group and the rest.\<close>

definition re_digits :: "string \<Rightarrow> (string \<times> string) option" where
  "re_digits s =
     (if s \<noteq> [] \<and> is_digit (hd s)
      then Some (takeWhile is_digit s, dropWhile is_digit s) else None)"

text \<open>\<open>(?:,(\d+))?\<close>\<close>

definition re_opt_len :: "string \<Rightarrow> string option \<times> string" where
  "re_opt_len s =
     (case re_lit '','' s of
        None \<Rightarrow> (None, s)
      | Some r \<Rightarrow> (case re_digits r of
                    None \<Rightarrow> (None, s)
                  | Some (d, r') \<Rightarrow> (Some d, r')))"

text \<open>\<open>int(d)\<close> for a string of decimal digits.\<close>

definition py_int :: "string \<Rightarrow> int" where
  "py_int d = foldl (\<lambda>a c. 10 * a + (int (of_char c) - 48)) 0 d"

text \<open>\<open>_UNIFIED_HUNK_RE.match(line)\<close>: the four groups.\<close>

definition UNIFIED_HUNK_RE :: "string \<Rightarrow> (string \<times> string option \<times> string \<times> string option) option" where
  "UNIFIED_HUNK_RE line =
     Option.bind (re_lit ''@@'' line) (\<lambda>r.
     Option.bind (re_spaces r) (\<lambda>r.
     Option.bind (re_lit ''-'' r) (\<lambda>r.
     Option.bind (re_digits r) (\<lambda>(sa, r).
     case re_opt_len r of (la, r) \<Rightarrow>
     Option.bind (re_spaces r) (\<lambda>r.
     Option.bind (re_lit ''+'' r) (\<lambda>r.
     Option.bind (re_digits r) (\<lambda>(sb, r).
     case re_opt_len r of (lb, r) \<Rightarrow>
     Option.bind (re_spaces r) (\<lambda>r.
     Option.bind (re_lit ''@@'' r) (\<lambda>r.
     Some (sa, la, sb, lb))))))))))"

definition parse_unified_header :: "string \<Rightarrow> int \<times> int \<times> int \<times> int" where
  "parse_unified_header line =
     (case UNIFIED_HUNK_RE line of
        None \<Rightarrow> (0, 0, 0, 0)
      | Some (sa, la, sb, lb) \<Rightarrow>
          (py_int sa, (case la of None \<Rightarrow> 1 | Some d \<Rightarrow> py_int d),
           py_int sb, (case lb of None \<Rightarrow> 1 | Some d \<Rightarrow> py_int d)))"

text \<open>\<open>(?:---|\*\*\*)\<close>\<close>

definition re_dashes_or_stars :: "string \<Rightarrow> string option" where
  "re_dashes_or_stars s =
     (case re_lit ''---'' s of Some r \<Rightarrow> Some r | None \<Rightarrow> re_lit ''***'' s)"

definition CONTEXT_HUNK_RE :: "string \<Rightarrow> (string \<times> string option) option" where
  "CONTEXT_HUNK_RE line =
     Option.bind (re_dashes_or_stars line) (\<lambda>r.
     Option.bind (re_spaces r) (\<lambda>r.
     Option.bind (re_digits r) (\<lambda>(s, r).
     case re_opt_len r of (l, r) \<Rightarrow>
     Option.bind (re_spaces r) (\<lambda>r.
     Option.bind (re_dashes_or_stars r) (\<lambda>r.
     Some (s, l))))))"

definition parse_context_header :: "string \<Rightarrow> int \<times> int" where
  "parse_context_header line =
     (case CONTEXT_HUNK_RE line of
        None \<Rightarrow> (0, 0)
      | Some (s, l) \<Rightarrow> (py_int s, (case l of None \<Rightarrow> 1 | Some d \<Rightarrow> py_int d)))"

section \<open>The unified hunk parser (diffparser.py)\<close>

text \<open>
  The loop \<open>while la or lb\<close> of \<open>_parse_unified\<close>. It has no exit but \<open>la = lb = 0\<close>,
  so it is a partial function: \<open>None\<close> is a run that never leaves the loop.
\<close>

partial_function (option) unified_loop ::
  "int \<Rightarrow> int \<Rightarrow> linebuffer \<Rightarrow> (char \<times> string) list \<Rightarrow> (linebuffer \<times> (char \<times> string) list) option" where
  "unified_loop la lb src ls =
     (if la \<noteq> 0 \<or> lb \<noteq> 0 then
        (let hline = fst (readline src); src' = snd (readline src) in
         if hline = [] \<or> hline = [CHR 0x0A] \<or> hline = [CHR 0x0D, CHR 0x0A]
         then unified_loop (la - 1) (lb - 1) src' (ls @ [(CHR '' '', hline)])
         else
           (let hl = (hd hline, tl hline) in
            unified_loop
              (if fst hl = CHR '' '' \<or> fst hl = CHR ''-'' then la - 1 else la)
              (if fst hl = CHR '' '' \<or> fst hl = CHR ''+'' then lb - 1 else lb)
              src' (ls @ [hl])))
      else Some (src, ls))"

declare unified_loop.simps [code]

text \<open>
  \<open>_parse_unified\<close>. The result is \<open>None\<close> when the loop does not end, \<open>Inl\<close> an
  exception, \<open>Inr\<close> the change returned and the line source after the call.
\<close>

definition parse_unified :: "change \<Rightarrow> string \<Rightarrow> linebuffer \<Rightarrow> (error + change \<times> linebuffer) option" where
  "parse_unified change line source0 =
     (case parse_unified_header line of (sa, la, sb, lb) \<Rightarrow>
      let change1 =
            (if sa = 0 \<and> la = 0 \<and> cls change \<noteq> Add then new_Add (dest change) None
             else if sb = 0 \<and> lb = 0 \<and> cls change \<noteq> Delete then new_Delete (source change) None
             else change);
          hunk = new_TextHunk sa la sb lb
      in case unified_loop la lb source0 (lines hunk) of
           None \<Rightarrow> None
         | Some (source1, ls) \<Rightarrow>
             (let hunk1 = hunk\<lparr>lines := ls\<rparr>;
                  hline = fst (readline source1);
                  source2 = snd (readline source1)
              in if startswith hline [CHR 0x5C, CHR '' '']
                 then (case fix_final_newline hunk1 of
                         Inl e \<Rightarrow> Some (Inl e)
                       | Inr hunk2 \<Rightarrow>
                           Some (Inr (change1\<lparr>hunks := hunks change1 @ [Text hunk2]\<rparr>, source2)))
                 else Some (Inr (change1\<lparr>hunks := hunks change1 @ [Text hunk1]\<rparr>,
                                 push source2 hline))))"


section \<open>C-style escapes and quoted names (diffparser.py)\<close>

definition is_hex :: "char \<Rightarrow> bool" where
  "is_hex c = (is_digit c \<or> c \<in> set ''ABCDEF'' \<or> c \<in> set ''abcdef'')"

definition is_octal :: "char \<Rightarrow> bool" where
  "is_octal c = (c \<in> set ''01234567'')"

text \<open>The dictionary \<open>_ESCAPES\<close>; every key is a backslash and one more character.\<close>

definition ESCAPES :: "(string \<times> string) list" where
  "ESCAPES =
     [([CHR 0x5C, CHR ''a''], [CHR 0x07]), ([CHR 0x5C, CHR ''b''], [CHR 0x08]),
      ([CHR 0x5C, CHR ''t''], [CHR 0x09]), ([CHR 0x5C, CHR ''n''], [CHR 0x0A]),
      ([CHR 0x5C, CHR ''v''], [CHR 0x0B]), ([CHR 0x5C, CHR ''f''], [CHR 0x0C]),
      ([CHR 0x5C, CHR ''r''], [CHR 0x0D]), ([CHR 0x5C, CHR 0x22], [CHR 0x22]),
      ([CHR 0x5C, CHR 0x27], [CHR 0x27]), ([CHR 0x5C, CHR 0x5C], [CHR 0x5C])]"

text \<open>
  \<open>_ESCAPE_RE\<close> at a backslash: the number of characters the match takes after the
  backslash, the alternatives tried in the pattern's order; \<open>None\<close> when the backslash
  is followed by a newline or by nothing.
\<close>

definition ESCAPE_RE_tail :: "string \<Rightarrow> nat option" where
  "ESCAPE_RE_tail cs =
     (case cs of
        [] \<Rightarrow> None
      | c # r \<Rightarrow>
          if c \<in> set ''abtnvfr'' then Some 1
          else if c = CHR ''u'' \<and> r \<noteq> [] \<and> is_hex (hd r)
            then Some (1 + length (takeWhile is_hex (take 4 r)))
          else if c = CHR ''U'' \<and> r \<noteq> [] \<and> is_hex (hd r)
            then Some (1 + length (takeWhile is_hex (take 8 r)))
          else if c = CHR ''x'' \<and> r \<noteq> [] \<and> is_hex (hd r)
            then Some (1 + length (takeWhile is_hex (take 2 r)))
          else if is_octal c then Some (length (takeWhile is_octal (take 3 cs)))
          else if c \<noteq> CHR 0x0A then Some 1
          else None)"

text \<open>
  \<open>process_escape\<close>, the replacement function given to \<open>_ESCAPE_RE.sub\<close>. Its hex
  and octal branches read a variable \<open>e\<close>; the function binds \<open>esc\<close> only, and no
  module-level name \<open>e\<close> exists in \<open>diffparser.py\<close> or among the names it imports from
  the modules under \<open>src/\<close>, so the lookup raises NameError.
\<close>

definition process_escape :: "string \<Rightarrow> error + string" where
  "process_escape esc =
     (case map_of ESCAPES esc of
        Some ch \<Rightarrow> Inr ch
      | None \<Rightarrow>
          if startswith esc [CHR 0x5C, CHR ''x''] then Inl (NameError ''e'')
          else if is_octal (esc ! 1) then Inl (NameError ''e'')
          else Inr (tl esc))"

text \<open>\<open>_ESCAPE_RE.sub(process_escape, c)\<close>: matches are replaced from left to right.\<close>

function ESCAPE_RE_sub :: "string \<Rightarrow> error + string" where
  "ESCAPE_RE_sub [] = Inr []"
| "ESCAPE_RE_sub (c # cs) =
     (case (if c = CHR 0x5C then ESCAPE_RE_tail cs else None) of
        Some n \<Rightarrow>
          then_e (process_escape (c # take n cs)) (\<lambda>r.
          then_e (ESCAPE_RE_sub (drop n cs)) (\<lambda>rest. Inr (r @ rest)))
      | None \<Rightarrow> then_e (ESCAPE_RE_sub cs) (\<lambda>rest. Inr (c # rest)))"
  by pat_completeness auto
termination
  by (relation "measure length") auto

text \<open>
  \<open>_UNI_RE\<close> at the head of a string: the length of the match, 6 for \<open>\uXXXX\<close> and
  10 for \<open>\UXXXXXXXX\<close>.
\<close>

definition UNI_RE_match :: "string \<Rightarrow> nat option" where
  "UNI_RE_match s =
     (if startswith s [CHR 0x5C, CHR ''u''] \<and> 6 \<le> length s \<and> list_all is_hex (take 4 (drop 2 s))
      then Some 6
      else if startswith s [CHR 0x5C, CHR ''U''] \<and> 10 \<le> length s
              \<and> list_all is_hex (take 8 (drop 2 s))
      then Some 10
      else None)"

text \<open>
  \<open>_UNI_RE.split(s)\<close>; the pattern is one capturing group, so the matches are kept
  between the pieces. \<open>cur\<close> is the piece being collected.
\<close>

function UNI_RE_split :: "string \<Rightarrow> string \<Rightarrow> string list" where
  "UNI_RE_split cur [] = [cur]"
| "UNI_RE_split cur (c # cs) =
     (case UNI_RE_match (c # cs) of
        Some n \<Rightarrow> cur # take n (c # cs) # UNI_RE_split [] (drop n (c # cs))
      | None \<Rightarrow> UNI_RE_split (cur @ [c]) cs)"
  by pat_completeness auto
termination
  by (relation "measure (\<lambda>(cur, s). length s)")
     (auto simp: UNI_RE_match_def split: if_splits)

text \<open>
  The built-in \<open>int(s, base)\<close> on a \<open>str\<close>, for the bases 8 and 16 the source
  uses, as CPython 2 parses it: blanks, an optional sign, blanks, an optional prefix
  (\<open>0x\<close> for base 16, \<open>0o\<close> for base 8) when a digit follows it, the digits, and
  blanks up to the end. A string with a NUL byte, without a digit, or with anything else
  after the digits raises ValueError. The value is not bounded.
\<close>

definition digit_val :: "char \<Rightarrow> int" where
  "digit_val c =
     (if is_digit c then int (of_char c) - 48
      else if c \<in> set ''abcdef'' then int (of_char c) - 87
      else int (of_char c) - 55)"

definition is_digit_of :: "int \<Rightarrow> char \<Rightarrow> bool" where
  "is_digit_of base c = (is_hex c \<and> digit_val c < base)"

definition has_base_prefix :: "int \<Rightarrow> string \<Rightarrow> bool" where
  "has_base_prefix base s =
     (3 \<le> length s \<and> s ! 0 = CHR ''0''
      \<and> ((base = 16 \<and> (s ! 1 = CHR ''x'' \<or> s ! 1 = CHR ''X''))
         \<or> (base = 8 \<and> (s ! 1 = CHR ''o'' \<or> s ! 1 = CHR ''O'')))
      \<and> is_digit_of base (s ! 2))"

definition py_int_base :: "int \<Rightarrow> string \<Rightarrow> error + int" where
  "py_int_base base s =
     (if CHR 0x00 \<in> set s then Inl ValueError
      else
        (let s1 = dropWhile is_space s;
             neg = (s1 \<noteq> [] \<and> hd s1 = CHR ''-'');
             s2 = (if s1 \<noteq> [] \<and> (hd s1 = CHR ''+'' \<or> hd s1 = CHR ''-'') then tl s1 else s1);
             s3 = dropWhile is_space s2;
             s4 = (if has_base_prefix base s3 then drop 2 s3 else s3);
             ds = takeWhile (is_digit_of base) s4;
             rest = dropWhile (is_digit_of base) s4;
             v = foldl (\<lambda>a c. base * a + digit_val c) 0 ds
         in if ds \<noteq> [] \<and> list_all is_space rest
            then Inr (if neg then - v else v)
            else Inl ValueError))"

text \<open>\<open>unichr(n)\<close> (on a build with 32-bit code points): a one-character unicode string.\<close>

definition unichr :: "int \<Rightarrow> error + nat list" where
  "unichr n = (if 0 \<le> n \<and> n \<le> 0x10FFFF then Inr [nat n] else Inl ValueError)"

text \<open>
  \<open>unescape_c(s, encoding)\<close>. The codec \<open>r.decode(encoding)\<close> is the parameter
  \<open>decode\<close>. The pieces are handled in order, so the first exception wins.
\<close>

definition unescape_piece :: "(string \<Rightarrow> error + nat list) \<Rightarrow> string \<Rightarrow> error + nat list" where
  "unescape_piece decode c =
     (if startswith c [CHR 0x5C, CHR ''u''] \<or> startswith c [CHR 0x5C, CHR ''U'']
      then then_e (py_int_base 16 (drop 2 c)) unichr
      else then_e (ESCAPE_RE_sub c) decode)"

fun unescape_pieces :: "(string \<Rightarrow> error + nat list) \<Rightarrow> string list \<Rightarrow> error + nat list" where
  "unescape_pieces decode [] = Inr []"
| "unescape_pieces decode (c # cs) =
     then_e (unescape_piece decode c) (\<lambda>r.
     then_e (unescape_pieces decode cs) (\<lambda>rest. Inr (r @ rest)))"

definition unescape_c :: "(string \<Rightarrow> error + nat list) \<Rightarrow> string \<Rightarrow> error + nat list" where
  "unescape_c decode s = unescape_pieces decode (UNI_RE_split [] s)"

text \<open>Two codecs: \<open>'latin-1'\<close> maps every byte to its code point; \<open>'ascii'\<close> refuses
  bytes above 127.\<close>

definition latin_1 :: "string \<Rightarrow> error + nat list" where
  "latin_1 s = Inr (map of_char s)"

definition ascii :: "string \<Rightarrow> error + nat list" where
  "ascii s = (if list_all (\<lambda>c. (of_char c :: nat) < 128) s then Inr (map of_char s)
              else Inl UnicodeDecodeError)"

text \<open>\<open>_INTERESTING.search(line, ndx)\<close>: start and end of the leftmost match of
  \<open>(?:\\.|")\<close> at or after \<open>ndx\<close>.\<close>

fun INTERESTING_from :: "nat \<Rightarrow> string \<Rightarrow> (nat \<times> nat) option" where
  "INTERESTING_from i [] = None"
| "INTERESTING_from i (c # cs) =
     (if c = CHR 0x5C \<and> cs \<noteq> [] \<and> hd cs \<noteq> CHR 0x0A then Some (i, i + 2)
      else if c = CHR 0x22 then Some (i, i + 1)
      else INTERESTING_from (Suc i) cs)"

definition INTERESTING_search :: "string \<Rightarrow> nat \<Rightarrow> (nat \<times> nat) option" where
  "INTERESTING_search line ndx = INTERESTING_from ndx (drop ndx line)"

lemma INTERESTING_from_bounds:
  "INTERESTING_from i s = Some (a, b) \<Longrightarrow> i \<le> a \<and> a < b \<and> b \<le> i + length s"
proof (induction i s rule: INTERESTING_from.induct)
  case (1 i)
  then show ?case by simp
next
  case (2 i c cs)
  then show ?case by (cases cs) (auto split: if_splits)
qed

lemma INTERESTING_search_bounds:
  "INTERESTING_search line ndx = Some (a, b) \<Longrightarrow> ndx < length line \<Longrightarrow>
     ndx \<le> a \<and> a < b \<and> b \<le> length line"
  using INTERESTING_from_bounds [of ndx "drop ndx line" a b]
  by (auto simp: INTERESTING_search_def)

text \<open>The \<open>while ndx < dlen\<close> loop of \<open>scan_quoted\<close>: the chunks and the final \<open>ndx\<close>.\<close>

function scan_quoted_loop :: "string \<Rightarrow> nat \<Rightarrow> string list \<Rightarrow> string list \<times> nat" where
  "scan_quoted_loop line ndx chunks =
     (if ndx < length line then
        (case INTERESTING_search line ndx of
           None \<Rightarrow>
             (let chunk = drop ndx line
              in ((if chunk \<noteq> [] then chunks @ [chunk] else chunks), ndx))
         | Some (start, end0) \<Rightarrow>
             (let chunk = take (start - ndx) (drop ndx line);
                  chunks1 = (if chunk \<noteq> [] then chunks @ [chunk] else chunks);
                  match = take (end0 - start) (drop start line)
              in if startswith match [CHR 0x5C]
                 then scan_quoted_loop line end0 (chunks1 @ [match])
                 else if match = [CHR 0x22] then (chunks1, end0)
                 else scan_quoted_loop line end0 chunks1))
      else (chunks, ndx))"
  by pat_completeness auto
termination
  by (relation "measure (\<lambda>(line, ndx, chunks). length line - ndx)")
     (auto dest: INTERESTING_search_bounds)

declare scan_quoted_loop.simps [simp del]

definition scan_quoted :: "(string \<Rightarrow> error + nat list) \<Rightarrow> string \<Rightarrow> nat \<Rightarrow> error + (nat list \<times> nat)" where
  "scan_quoted decode line ndx =
     (case scan_quoted_loop line (ndx + 1) [] of (chunks, ndx') \<Rightarrow>
        then_e (unescape_c decode (concat chunks)) (\<lambda>name. Inr (name, ndx')))"

text \<open>\<open>s.strip()\<close>\<close>

definition strip :: "string \<Rightarrow> string" where
  "strip s = rev (dropWhile is_space (rev (dropWhile is_space s)))"

text \<open>\<open>_extract_name\<close>: the stripped \<open>str\<close>, or the unicode name of a quoted one.\<close>

definition extract_name :: "(string \<Rightarrow> error + nat list) \<Rightarrow> string \<Rightarrow> error + pystr" where
  "extract_name decode s =
     (let name = strip s
      in if startswith name [CHR 0x22]
         then then_e (scan_quoted decode name 0) (\<lambda>(name', ndx). Inr (U name'))
         else Inr (S name))"

section \<open>The handlers of git extended headers (diffparser.py)\<close>

text \<open>
  A handler is called as \<open>handler(sline, m, change, default_filename, encoding)\<close>;
  \<open>g1\<close> is \<open>m.group(1)\<close>, the only use the handlers make of the match. For the two
  mode handlers the pattern makes \<open>g1\<close> a non-empty string of octal digits.
\<close>

definition handle_rename_from ::
  "string \<Rightarrow> string \<Rightarrow> change \<Rightarrow> pystr option \<Rightarrow> (string \<Rightarrow> error + nat list) \<Rightarrow> error + change" where
  "handle_rename_from line g1 change defname decode =
     then_e (extract_name decode g1) (\<lambda>name.
       Inr (if cls change \<noteq> Rename then new_Rename (Some name) None
            else change\<lparr>source := Some name\<rparr>))"

definition handle_rename_to ::
  "string \<Rightarrow> string \<Rightarrow> change \<Rightarrow> pystr option \<Rightarrow> (string \<Rightarrow> error + nat list) \<Rightarrow> error + change" where
  "handle_rename_to line g1 change defname decode =
     then_e (extract_name decode g1) (\<lambda>name.
       Inr (if cls change \<noteq> Rename then new_Rename None (Some name)
            else change\<lparr>dest := Some name\<rparr>))"

definition handle_copy_from ::
  "string \<Rightarrow> string \<Rightarrow> change \<Rightarrow> pystr option \<Rightarrow> (string \<Rightarrow> error + nat list) \<Rightarrow> error + change" where
  "handle_copy_from line g1 change defname decode =
     then_e (extract_name decode g1) (\<lambda>name.
       Inr (if cls change \<noteq> Copy then new_Copy (Some name) None
            else change\<lparr>source := Some name\<rparr>))"

definition handle_copy_to ::
  "string \<Rightarrow> string \<Rightarrow> change \<Rightarrow> pystr option \<Rightarrow> (string \<Rightarrow> error + nat list) \<Rightarrow> error + change" where
  "handle_copy_to line g1 change defname decode =
     then_e (extract_name decode g1) (\<lambda>name.
       Inr (if cls change \<noteq> Copy then new_Copy None (Some name)
            else change\<lparr>dest := Some name\<rparr>))"

definition handle_delete ::
  "string \<Rightarrow> string \<Rightarrow> change \<Rightarrow> pystr option \<Rightarrow> (string \<Rightarrow> error + nat list) \<Rightarrow> error + change" where
  "handle_delete line g1 change defname decode =
     then_e (py_int_base 8 g1) (\<lambda>mode. Inr (new_Delete defname (Some mode)))"

definition handle_new ::
  "string \<Rightarrow> string \<Rightarrow> change \<Rightarrow> pystr option \<Rightarrow> (string \<Rightarrow> error + nat list) \<Rightarrow> error + change" where
  "handle_new line g1 change defname decode =
     then_e (py_int_base 8 g1) (\<lambda>mode. Inr (new_Add defname (Some mode)))"


section \<open>The context hunk parser (diffparser.py)\<close>

lemma readline_consumes:
  "fst (readline s) \<noteq> [] \<Longrightarrow>
     length (buffered (snd (readline s))) + length (lb_f (snd (readline s)))
       < length (buffered s) + length (lb_f s)"
  by (auto simp: readline_def lb_next_def split: list.splits)

text \<open>
  The first loop, \<open>while la\<close>. Nothing in its body changes \<open>la\<close>: it ends at the end
  of the input or at a line that starts with \<open>---\<close>, which is pushed back. A line with
  none of the expected prefixes is read and dropped.
\<close>

function context_first_loop ::
  "int \<Rightarrow> linebuffer \<Rightarrow> (char \<times> string) list \<Rightarrow> linebuffer \<times> (char \<times> string) list" where
  "context_first_loop la src ls =
     (if la \<noteq> 0 then
        (let hline = fst (readline src); src' = snd (readline src) in
         if hline = [] then (src', ls)
         else if startswith hline ''---'' then (push src' hline, ls)
         else if startswith hline ''! '' \<or> startswith hline ''- ''
           then context_first_loop la src' (ls @ [(CHR ''-'', drop 2 hline)])
         else if startswith hline ''  ''
           then context_first_loop la src' (ls @ [(CHR '' '', drop 2 hline)])
         else context_first_loop la src' ls)
      else (src, ls))"
  by pat_completeness auto
termination
  by (relation "measure (\<lambda>(la, src, ls). length (buffered src) + length (lb_f src))")
     (auto dest: readline_consumes)

declare context_first_loop.simps [simp del]

text \<open>\<open>hunk.lines.insert(i, n)\<close>: before position \<open>i\<close>, at the end when \<open>i\<close> is past it.\<close>

definition list_insert :: "nat \<Rightarrow> 'a \<Rightarrow> 'a list \<Rightarrow> 'a list" where
  "list_insert i x xs = take i xs @ [x] @ drop i xs"

text \<open>
  The inner loop, \<open>while True\<close>, for a bound \<open>n\<close>. Its only exit is \<open>h == n\<close>; the
  insertion is followed by another turn of the loop, not by \<open>break\<close>.
\<close>

partial_function (option) merge_loop ::
  "(char \<times> string) list \<Rightarrow> nat \<Rightarrow> char \<times> string \<Rightarrow> ((char \<times> string) list \<times> nat) option" where
  "merge_loop ls ndx n =
     (let h = (if ndx \<ge> length ls then (CHR '' '', []) else ls ! ndx);
          ndx' = ndx + 1
      in if h = n then Some (ls, ndx')
         else if fst h = CHR ''-'' then merge_loop ls ndx' n
         else merge_loop (list_insert (ndx' - 1) n ls) ndx' n)"

declare merge_loop.simps [code]

text \<open>
  The second loop, \<open>while lb\<close>; \<open>lb\<close> does not change either. \<open>n\<close> is the local
  variable of that name, \<open>None\<close> while unbound: a line with none of the expected prefixes
  leaves it as it was, and the comparison \<open>h == n\<close> raises UnboundLocalError when it has
  never been bound.
\<close>

function context_second_loop ::
  "int \<Rightarrow> linebuffer \<Rightarrow> (char \<times> string) list \<Rightarrow> nat \<Rightarrow> (char \<times> string) option
     \<Rightarrow> (error + linebuffer \<times> (char \<times> string) list) option" where
  "context_second_loop lb src ls ndx n =
     (if lb \<noteq> 0 then
        (let hline = fst (readline src); src' = snd (readline src) in
         if hline = [] then Some (Inr (src', ls))
         else
           (let n' = (if startswith hline ''! '' \<or> startswith hline ''+ ''
                        then Some (CHR ''+'', drop 2 hline)
                      else if startswith hline ''  '' then Some (CHR '' '', drop 2 hline)
                      else n)
            in case n' of
                 None \<Rightarrow> Some (Inl (UnboundLocalError ''n''))
               | Some nv \<Rightarrow>
                   (case merge_loop ls ndx nv of
                      None \<Rightarrow> None
                    | Some (ls', ndx') \<Rightarrow> context_second_loop lb src' ls' ndx' n')))
      else Some (Inr (src, ls)))"
  by pat_completeness auto
termination
  by (relation "measure (\<lambda>(lb, src, ls, ndx, n). length (buffered src) + length (lb_f src))")
     (auto dest: readline_consumes)

declare context_second_loop.simps [simp del]

text \<open>The check for \<open>\ No newline at end of file\<close> that follows each loop.\<close>

definition no_newline_check :: "text_hunk \<Rightarrow> linebuffer \<Rightarrow> error + text_hunk \<times> linebuffer" where
  "no_newline_check hunk src =
     (let hline = fst (readline src); src' = snd (readline src)
      in if startswith hline [CHR 0x5C, CHR '' '']
         then then_e (fix_final_newline hunk) (\<lambda>h. Inr (h, src'))
         else Inr (hunk, push src' hline))"

text \<open>
  \<open>_parse_context\<close>. Both headers are parsed from the argument \<open>line\<close>; the hunk is
  built with \<open>start_b = len_b = 0\<close> and these are not set afterwards.
\<close>

definition parse_context :: "change \<Rightarrow> string \<Rightarrow> linebuffer \<Rightarrow> (error + change \<times> linebuffer) option" where
  "parse_context change line source0 =
     (case parse_context_header line of (sa, la) \<Rightarrow>
      let change1 = (if sa = 0 \<and> la = 0 \<and> cls change \<noteq> Add
                     then new_Add (dest change) None else change);
          hunk = new_TextHunk sa la 0 0;
          r1 = context_first_loop la source0 (lines hunk)
      in case no_newline_check (hunk\<lparr>lines := snd r1\<rparr>) (fst r1) of
           Inl e \<Rightarrow> Some (Inl e)
         | Inr (hunk2, source2) \<Rightarrow>
            (case parse_context_header line of (sb, lb) \<Rightarrow>
             let change2 = (if sb = 0 \<and> lb = 0 \<and> cls change1 \<noteq> Delete
                            then new_Delete (source change1) None else change1)
             in case context_second_loop lb source2 (lines hunk2) 1 None of
                  None \<Rightarrow> None
                | Some (Inl e) \<Rightarrow> Some (Inl e)
                | Some (Inr (source3, ls3)) \<Rightarrow>
                    (case no_newline_check (hunk2\<lparr>lines := ls3\<rparr>) source3 of
                       Inl e \<Rightarrow> Some (Inl e)
                     | Inr (hunk4, source4) \<Rightarrow>
                         Some (Inr (change2\<lparr>hunks := hunks change2 @ [Text hunk4]\<rparr>,
                                    source4)))))"


section \<open>The binary hunk parser (diffparser.py)\<close>

text \<open>\<open>_METHOD_LINE_RE.match(line)\<close>, the pattern \<open>(\w+)\s+(\d+)\<close>: the two groups.\<close>

definition is_word :: "char \<Rightarrow> bool" where
  "is_word c =
     (is_digit c \<or> c = CHR ''_''
      \<or> (65 \<le> (of_char c :: nat) \<and> (of_char c :: nat) \<le> 90)
      \<or> (97 \<le> (of_char c :: nat) \<and> (of_char c :: nat) \<le> 122))"

definition METHOD_LINE_RE :: "string \<Rightarrow> (string \<times> string) option" where
  "METHOD_LINE_RE line =
     (if line \<noteq> [] \<and> is_word (hd line)
      then Option.bind (re_spaces (dropWhile is_word line)) (\<lambda>r.
           Option.bind (re_digits r) (\<lambda>(g2, r).
           Some (takeWhile is_word line, g2)))
      else None)"

text \<open>The length byte of a data line: \<open>A\<close>..\<open>Z\<close> and \<open>a\<close>..\<open>z\<close>.\<close>

definition chunk_length :: "char \<Rightarrow> nat option" where
  "chunk_length c =
     (let blen = (of_char c :: nat)
      in if blen \<ge> 65 \<and> blen \<le> 90 then Some (blen - 65 + 1)
         else if blen \<ge> 97 \<and> blen \<le> 122 then Some (blen - 97 + 27)
         else None)"

lemma strip_Nil [simp]: "strip [] = []"
  by (simp add: strip_def)

text \<open>
  The loop \<open>while True\<close> of \<open>_parse_binary_hunk\<close>, which collects the chunks.
  \<open>base85_decode\<close> comes from the module \<open>mercury.base85\<close>, which is not among the
  sources: it is the parameter \<open>b85\<close>, and whatever it raises is passed on.
\<close>

function binary_data_loop ::
  "(string \<Rightarrow> error + string) \<Rightarrow> linebuffer \<Rightarrow> string list \<Rightarrow> error + string list \<times> linebuffer" where
  "binary_data_loop b85 src dat =
     (let line = strip (fst (readline src)); src' = snd (readline src) in
      if line = [] then Inr (dat, src')
      else if length line < 6 \<or> (length line - 1) mod 5 \<noteq> 0
        then Inl (raise_exc ''BadBinaryHunk'' ''corrupt binary patch - bad line length'')
      else
        (case chunk_length (hd line) of
           None \<Rightarrow> Inl (raise_exc ''BadBinaryHunk'' ''corrupt binary patch - bad length byte'')
         | Some blen \<Rightarrow>
             (case b85 (tl line) of
                Inl e \<Rightarrow> Inl e
              | Inr new_data \<Rightarrow>
                  if length new_data < blen
                  then Inl (raise_exc ''BadBinaryHunk'' ''corrupt binary patch - length mismatch'')
                  else binary_data_loop b85 src' (dat @ [take blen new_data]))))"
  by pat_completeness auto
termination
proof (relation "measure (\<lambda>(b85, src, dat). length (buffered src) + length (lb_f src))")
  show "wf (measure (\<lambda>(b85, src, dat). length (buffered src) + length (lb_f src)))"
    by simp
next
  fix b85 :: "string \<Rightarrow> error + string" and src :: linebuffer and dat :: "string list"
    and line src' blen new_data
  assume "line = strip (fst (readline src))" and "src' = snd (readline src)" and "line \<noteq> []"
  then have "fst (readline src) \<noteq> []" by auto
  from readline_consumes [OF this] \<open>src' = snd (readline src)\<close>
  show "((b85, src', dat @ [take blen new_data]), (b85, src, dat))
          \<in> measure (\<lambda>(b85, src, dat). length (buffered src) + length (lb_f src))"
    by simp
qed

declare binary_data_loop.simps [simp del]

text \<open>
  \<open>_parse_binary_hunk(change, source, encoding, reverse)\<close>; it uses neither \<open>change\<close>
  nor \<open>encoding\<close>. \<open>zlib.decompress\<close> is the parameter \<open>inflate\<close>, \<open>None\<close> when it
  raises; the bare \<open>except\<close> turns that into BadBinaryHunk. The result is the hunk, or
  \<open>None\<close> when the line is not a method line, and the source after the call.
\<close>

definition parse_binary_hunk ::
  "(string \<Rightarrow> error + string) \<Rightarrow> (string \<Rightarrow> string option) \<Rightarrow> linebuffer \<Rightarrow> bool
     \<Rightarrow> error + binary_hunk option \<times> linebuffer" where
  "parse_binary_hunk b85 inflate source0 rev0 =
     (let line = fst (readline source0); source1 = snd (readline source0) in
      case METHOD_LINE_RE line of
        None \<Rightarrow> Inr (None, push source1 line)
      | Some (meth, g2) \<Rightarrow>
          if meth \<noteq> ''literal'' \<and> meth \<noteq> ''delta'' then Inr (None, push source1 line)
          else
            (let orig_len = py_int g2 in
             case binary_data_loop b85 source1 [] of
               Inl e \<Rightarrow> Inl e
             | Inr (dat, source2) \<Rightarrow>
                 (case inflate (concat dat) of
                    None \<Rightarrow> Inl (raise_exc ''BadBinaryHunk''
                                   ''corrupt binary patch - unable to decompress'')
                  | Some d \<Rightarrow>
                      Inr (Some \<lparr>blength = orig_len, hunk_method = meth, data = d,
                                 reverse = rev0\<rparr>, source2))))"

text \<open>\<open>_parse_binary(change, source, encoding, default_filename)\<close>\<close>

definition parse_binary ::
  "(string \<Rightarrow> error + string) \<Rightarrow> (string \<Rightarrow> string option) \<Rightarrow> change \<Rightarrow> linebuffer
     \<Rightarrow> pystr option \<Rightarrow> error + change \<times> linebuffer" where
  "parse_binary b85 inflate change source0 default_filename =
     (let change1 = (if source change = None then change\<lparr>source := default_filename\<rparr>
                     else change);
          change2 = (if dest change1 = None then change1\<lparr>dest := default_filename\<rparr>
                     else change1)
      in case parse_binary_hunk b85 inflate source0 False of
           Inl e \<Rightarrow> Inl e
         | Inr (forward, source1) \<Rightarrow>
             (case forward of
                None \<Rightarrow> Inl (raise_exc ''BadBinaryHunk'' ''unrecognised binary patch'')
              | Some fwd \<Rightarrow>
                  (let change3 = change2\<lparr>hunks := hunks change2 @ [Binary fwd]\<rparr> in
                   case parse_binary_hunk b85 inflate source1 True of
                     Inl e \<Rightarrow> Inl e
                   | Inr (backward, source2) \<Rightarrow>
                       (let change4 =
                              (case backward of
                                 None \<Rightarrow> change3
                               | Some r \<Rightarrow> change3\<lparr>hunks := hunks change3 @ [Binary r]\<rparr>)
                        in Inr (change4\<lparr>binary := True\<rparr>, source2)))))"

text \<open>
  Modelled from the spec: the decoder \<open>base85_decode\<close> of the module \<open>mercury.base85\<close>,
  which is not among the sources. The spec describes it as a standard 85-alphabet decoder
  that fails on characters outside the alphabet; this is the one of git binary patches:
  five characters give four bytes, most significant first. It serves as an instance of the
  parameter \<open>b85\<close>.
\<close>

definition base85_alphabet :: string where
  "base85_alphabet =
     ''0123456789ABCDEFGHIJKLMNOPQRSTUVWXYZabcdefghijklmnopqrstuvwxyz!#$%&()*+-;<=>?@^_`{|}~''"

fun index_of :: "'a \<Rightarrow> 'a list \<Rightarrow> nat option" where
  "index_of x [] = None"
| "index_of x (y # ys) = (if x = y then Some 0 else map_option Suc (index_of x ys))"

definition base85_group :: "string \<Rightarrow> error + string" where
  "base85_group g =
     (if list_all (\<lambda>c. index_of c base85_alphabet \<noteq> None) g
      then (let v = foldl (\<lambda>a c. 85 * a + int (the (index_of c base85_alphabet))) (0 :: int) g
            in if v < 2 ^ 32
               then Inr (map (\<lambda>i. char_of ((v div 256 ^ i) mod 256)) [3, 2, 1, 0 :: nat])
               else Inl ValueError)
      else Inl ValueError)"

function base85_decode :: "string \<Rightarrow> error + string" where
  "base85_decode s =
     (if s = [] then Inr []
      else if length s < 5 then Inl ValueError
      else then_e (base85_group (take 5 s)) (\<lambda>b.
           then_e (base85_decode (drop 5 s)) (\<lambda>rest. Inr (b @ rest))))"
  by pat_completeness auto
termination
  by (relation "measure length") auto

declare base85_decode.simps [simp del]


subsection \<open>Notions used to state the properties of the hunk parsers\<close>

text \<open>The lines a source will deliver, in order: the buffer first, then the iterator.\<close>

definition pending :: "linebuffer \<Rightarrow> string list" where
  "pending s = buffered s @ lb_f s"

text \<open>The number of stored lines of a hunk that carry a given marker.\<close>

definition count_marker :: "char \<Rightarrow> (char \<times> string) list \<Rightarrow> int" where
  "count_marker m ls = int (length (filter (\<lambda>l. fst l = m) ls))"

text \<open>
  A well-formed body for the counts \<open>la\<close>, \<open>lb\<close>: context lines (a blank line is
  one), removed lines and added lines, possibly with \<open>\ No newline\<close> markers between
  them, \<open>la\<close> of them on the old side and \<open>lb\<close> on the new side, and no line after
  the counts are used up.
\<close>

fun wf_body :: "int \<Rightarrow> int \<Rightarrow> string list \<Rightarrow> bool" where
  "wf_body la lb [] = (la = 0 \<and> lb = 0)"
| "wf_body la lb (l # body) =
     ((la \<noteq> 0 \<or> lb \<noteq> 0) \<and>
      (if l = [] \<or> l = [CHR 0x0A] \<or> l = [CHR 0x0D, CHR 0x0A] \<or> hd l = CHR '' ''
       then wf_body (la - 1) (lb - 1) body
       else if hd l = CHR ''-'' then wf_body (la - 1) lb body
       else if hd l = CHR ''+'' then wf_body la (lb - 1) body
       else if hd l = CHR 0x5C then wf_body la lb body
       else False))"

text \<open>The marker under which a body line is expected to be stored.\<close>

definition body_marker :: "string \<Rightarrow> char" where
  "body_marker l =
     (if l = [] \<or> l = [CHR 0x0A] \<or> l = [CHR 0x0D, CHR 0x0A] then CHR '' '' else hd l)"


text \<open>
  The chunk a data line of a binary sub-block contributes when it passes every check:
  the first \<open>blen\<close> bytes of what the rest of the stripped line decodes to, \<open>blen\<close>
  being the value of its first character.
\<close>

definition data_chunk :: "(string \<Rightarrow> error + string) \<Rightarrow> string \<Rightarrow> string option" where
  "data_chunk b85 hline =
     (let line = strip hline in
      if line = [] \<or> length line < 6 \<or> (length line - 1) mod 5 \<noteq> 0 then None
      else case chunk_length (hd line) of
             None \<Rightarrow> None
           | Some blen \<Rightarrow>
               (case b85 (tl line) of
                  Inl e \<Rightarrow> None
                | Inr d \<Rightarrow> if length d < blen then None else Some (take blen d)))"

text \<open>When a hunk header makes the parser replace the change by a new object.\<close>

definition unified_upgrades :: "change \<Rightarrow> string \<Rightarrow> bool" where
  "unified_upgrades c line =
     (case parse_unified_header line of (sa, la, sb, lb) \<Rightarrow>
        (sa = 0 \<and> la = 0 \<and> cls c \<noteq> Add) \<or> (sb = 0 \<and> lb = 0 \<and> cls c \<noteq> Delete))"

definition context_upgrades :: "change \<Rightarrow> string \<Rightarrow> bool" where
  "context_upgrades c line = (parse_context_header line = (0, 0))"

text \<open>
  A state of the inner loop of the context parser from which it cannot leave: the entry
  at \<open>ndx\<close> (the default entry past the end) is neither \<open>n\<close> nor a removed line.
\<close>

definition merge_stuck :: "(char \<times> string) list \<Rightarrow> nat \<Rightarrow> char \<times> string \<Rightarrow> bool" where
  "merge_stuck ls ndx n =
     (let h = (if ndx \<ge> length ls then (CHR '' '', []) else ls ! ndx)
      in h \<noteq> n \<and> fst h \<noteq> CHR ''-'')"

section \<open>Properties of the line buffer\<close>

lemma next_n_buffered:
  "next_n (length ls) (s\<lparr>buffered := ls\<rparr>) = Inr (ls, s\<lparr>buffered := []\<rparr>)"
  by (induction ls) (simp_all add: lb_next_def)

lemma foldl_push: "foldl push s ls = s\<lparr>buffered := buffered s @ ls\<rparr>"
  by (induction ls arbitrary: s) (simp_all add: push_def)

text \<open>
  Claim C4, as stated, at a concrete input: after \<open>push(L1)\<close> and \<open>push(L2)\<close> on a
  fresh buffer the next read does not return \<open>L2\<close>; it returns \<open>L1\<close>.
\<close>

theorem push_lifo_counterexample:
  "map_sum id fst (lb_next (push (push \<lparr>lb_f = [], buffered = []\<rparr> ''L1'') ''L2''))
     \<noteq> Inr ''L2''"
  by (simp add: lb_next_def push_def)

text \<open>
  Claim C4, amended: the buffer is a queue. On a line source whose buffer is empty,
  the lines pushed without intervening reads are returned by the next reads in the
  order they were pushed, first pushed first; after \<open>push(L1)\<close> then \<open>push(L2)\<close>,
  \<open>next\<close> returns \<open>L1\<close>, then \<open>L2\<close>, and the source is back in its initial state.
\<close>

theorem push_then_next_fifo:
  assumes "buffered s = []"
  shows "next_n (length ls) (foldl push s ls) = Inr (ls, s)
       \<and> lb_next (push (push s L1) L2) = Inr (L1, push s L2)
       \<and> lb_next (push s L2) = Inr (L2, s)"
proof -
  have "foldl push s ls = s\<lparr>buffered := ls\<rparr>"
    using assms by (simp add: foldl_push)
  moreover have "s\<lparr>buffered := []\<rparr> = s"
    using assms by simp
  ultimately have "next_n (length ls) (foldl push s ls) = Inr (ls, s)"
    by (simp add: next_n_buffered)
  moreover have "lb_next (push (push s L1) L2) = Inr (L1, push s L2)"
    using assms by (simp add: lb_next_def push_def)
  moreover have "lb_next (push s L2) = Inr (L2, s)"
    using assms by (simp add: lb_next_def push_def)
  ultimately show ?thesis by simp
qed

theorem push_then_next_fifo_witness:
  "buffered \<lparr>lb_f = [''x''], buffered = []\<rparr> = []
   \<and> next_n (Suc (Suc 0)) (push (push \<lparr>lb_f = [''x''], buffered = []\<rparr> ''L1'') ''L2'')
       = Inr ([''L1'', ''L2''], \<lparr>lb_f = [''x''], buffered = []\<rparr>)
   \<and> lb_next (push (push \<lparr>lb_f = [''x''], buffered = []\<rparr> ''L1'') ''L2'')
       = Inr (''L1'', push \<lparr>lb_f = [''x''], buffered = []\<rparr> ''L2'')"
  using push_then_next_fifo [of "\<lparr>lb_f = [''x''], buffered = []\<rparr>" "[''L1'', ''L2'']" "''L1''" "''L2''"]
  by simp

section \<open>Properties of the delta decoder\<close>

lemma raise_BadBinaryDelta: "raise_exc ''BadBinaryDelta'' msg = NameError ''BadBinaryDelta''"
  by (simp add: raise_exc_def exceptions_names_def)

text \<open>
  A copy opcode at \<open>ptr\<close> whose operand bytes are all present: the instruction is the one
  the operand bytes describe, and it is the last item of the run, which ends in
  UnboundLocalError.
\<close>

lemma decode_delta_loop_copy:
  assumes "ptr < length delta" and "delta ! ptr AND 0x80 \<noteq> 0"
    and "copy_operands delta (delta ! ptr) (ptr + 1) = Inr (src_offset, size0, ptr2)"
  shows "decode_delta_loop delta ptr offset None =
           ([Source offset src_offset (if size0 = 0 then 0x10000 else size0)],
            Some (UnboundLocalError ''todo''))"
  using assms by (simp add: decode_delta_loop.simps [of delta ptr] yield_def Let_def)

lemma operand_err: "operand delta cmd b sh a = Inl e \<Longrightarrow> e = IndexError"
  by (cases a) (auto simp: operand_def delta_at_def split: if_splits sum.splits)

lemma copy_operands_err: "copy_operands delta cmd ptr = Inl e \<Longrightarrow> e = IndexError"
  unfolding copy_operands_def then_e_def
  by (auto split: sum.splits prod.splits dest: operand_err)

lemma decode_delta_loop_never_Raised:
  "snd (decode_delta_loop delta ptr offset todo) \<noteq> Some (Raised c msg)"
proof (induction delta ptr offset todo rule: decode_delta_loop.induct)
  case (1 delta ptr offset todo)
  show ?case
    using 1
    by (subst decode_delta_loop.simps)
       (auto simp: Let_def yield_def raise_BadBinaryDelta split: sum.splits option.splits
             dest: copy_operands_err)
qed

text \<open>
  Claim C2 at the failing input \<open>bytearray([0x91, 5, 3, 1, 0x41])\<close> (copy 3 bytes from
  source offset 5, then the literal \<open>A\<close>): the copy instruction is yielded, then the run
  ends in UnboundLocalError at \<open>todo -= size\<close>; the literal at the next opcode is never
  decoded. With no operand bytes the size is 0x10000 and the run ends the same way. On a
  Python 2 \<open>str\<close> the test \<open>cmd & 0x80\<close> itself raises TypeError.
\<close>

theorem decode_delta_copy_stops:
  "decode_delta (Bytearray [0x91, 5, 3, 1, 0x41])
     = ([Source 0 5 3], Some (UnboundLocalError ''todo''))
   \<and> decode_delta (Bytearray [0x80, 0x80])
     = ([Source 0 0 0x10000], Some (UnboundLocalError ''todo''))
   \<and> decode_delta (Str [CHR 0x91, CHR 0x05, CHR 0x03]) = ([], Some TypeError)"
  by (simp add: decode_delta_def decode_delta_loop.simps copy_operands_def operand_def
        then_e_def delta_at_def yield_def)

text \<open>
  Claim C3 at the failing inputs \<open>bytearray([0])\<close> (zero opcode) and
  \<open>bytearray([3, 0x41])\<close> (a literal of 3 bytes with 1 byte left): both runs end in
  NameError, because \<open>BadBinaryDelta\<close> is not a name the module defines (the class in
  \<open>exceptions.py\<close> is \<open>BadBinaryDeltaError\<close>); the two cases are not told apart and
  neither is an instance of the delta error class.
\<close>

theorem decode_delta_errors_are_NameError:
  "decode_delta (Bytearray [0]) = ([], Some (NameError ''BadBinaryDelta''))
   \<and> decode_delta (Bytearray [3, 0x41]) = ([], Some (NameError ''BadBinaryDelta''))
   \<and> snd (decode_delta (Bytearray [0])) \<noteq> Some (Raised ''BadBinaryDeltaError'' ''unknown opcode 0x00'')
   \<and> snd (decode_delta (Bytearray [3, 0x41])) \<noteq> Some (Raised ''BadBinaryDeltaError'' ''delta was truncated'')"
  by (simp add: decode_delta_def decode_delta_loop.simps raise_BadBinaryDelta)


section \<open>Properties of the unified hunk parser\<close>

lemma readline_pending:
  "pending s = l # rest \<Longrightarrow> fst (readline s) = l \<and> pending (snd (readline s)) = rest"
  by (auto simp: pending_def readline_def lb_next_def split: list.splits)

lemma readline_eof: "pending s = [] \<Longrightarrow> readline s = ([], s)"
  by (auto simp: pending_def readline_def lb_next_def split: list.splits)

lemma count_marker_snoc:
  "count_marker m (ls @ [l]) = count_marker m ls + (if fst l = m then 1 else 0)"
  by (simp add: count_marker_def)

lemma count_marker_via_map: "count_marker m ls = int (length (filter (\<lambda>c. c = m) (map fst ls)))"
  by (induction ls) (simp_all add: count_marker_def)

lemma count_marker_map_fst:
  "map fst ls = map fst ls' \<Longrightarrow> count_marker m ls = count_marker m ls'"
  by (simp add: count_marker_via_map)

text \<open>What the loop has used of its counters is what it has stored.\<close>

lemma unified_loop_counts:
  "unified_loop la lb src ls = Some y \<Longrightarrow>
     la + count_marker (CHR '' '') ls + count_marker (CHR ''-'') ls
       = count_marker (CHR '' '') (snd y) + count_marker (CHR ''-'') (snd y)
   \<and> lb + count_marker (CHR '' '') ls + count_marker (CHR ''+'') ls
       = count_marker (CHR '' '') (snd y) + count_marker (CHR ''+'') (snd y)"
  apply (erule unified_loop.raw_induct [rotated, where P = "\<lambda>la lb src ls y.
     la + count_marker (CHR '' '') ls + count_marker (CHR ''-'') ls
       = count_marker (CHR '' '') (snd y) + count_marker (CHR ''-'') (snd y)
   \<and> lb + count_marker (CHR '' '') ls + count_marker (CHR ''+'') ls
       = count_marker (CHR '' '') (snd y) + count_marker (CHR ''+'') (snd y)"])
  subgoal premises p for loop la lb src ls y
  proof (cases "la \<noteq> 0 \<or> lb \<noteq> 0")
    case False
    with p(2) show ?thesis by auto
  next
    case True
    let ?h = "fst (readline src)"
    show ?thesis
    proof (cases "?h = [] \<or> ?h = [CHR 0x0A] \<or> ?h = [CHR 0x0D, CHR 0x0A]")
      case b: True
      with p(2) True
      have "loop (la - 1) (lb - 1) (snd (readline src)) (ls @ [(CHR '' '', ?h)]) = Some y"
        by (simp add: Let_def)
      from p(1)[OF this] show ?thesis by (simp add: count_marker_snoc)
    next
      case b: False
      let ?m = "hd ?h"
      from p(2) True b
      have "loop (if ?m = CHR '' '' \<or> ?m = CHR ''-'' then la - 1 else la)
                 (if ?m = CHR '' '' \<or> ?m = CHR ''+'' then lb - 1 else lb)
                 (snd (readline src)) (ls @ [(?m, tl ?h)]) = Some y"
        by (simp add: Let_def)
      from p(1)[OF this] show ?thesis by (auto simp add: count_marker_snoc split: if_splits)
    qed
  qed
  done

text \<open>At the end of the input the two counters fall together: they never both reach 0
  unless they are equal.\<close>

lemma unified_loop_eof_equal:
  "unified_loop la lb src ls = Some y \<Longrightarrow> pending src = [] \<longrightarrow> la = lb"
  apply (erule unified_loop.raw_induct [rotated, where P = "\<lambda>la lb src ls y.
     pending src = [] \<longrightarrow> la = lb"])
  subgoal premises p for loop la lb src ls y
  proof
    assume e: "pending src = []"
    then have r: "readline src = ([], src)" by (simp add: readline_eof)
    show "la = lb"
    proof (cases "la \<noteq> 0 \<or> lb \<noteq> 0")
      case True
      with p(2) r have "loop (la - 1) (lb - 1) src (ls @ [(CHR '' '', [])]) = Some y"
        by (simp add: Let_def)
      from p(1)[OF this] e show ?thesis by simp
    next
      case False
      then show ?thesis by simp
    qed
  qed
  done

lemma unified_loop_eof_diverges:
  "pending src = [] \<Longrightarrow> la \<noteq> lb \<Longrightarrow> unified_loop la lb src ls = None"
  using unified_loop_eof_equal [of la lb src ls]
  by (cases "unified_loop la lb src ls") auto

text \<open>On a well-formed body the loop returns, having stored every body line.\<close>

lemma unified_loop_wf:
  "wf_body la lb body \<Longrightarrow> pending src = body @ rest \<Longrightarrow>
     \<exists>src' ls'. unified_loop la lb src ls = Some (src', ls') \<and> pending src' = rest
        \<and> map fst ls' = map fst ls @ map body_marker body"
proof (induction body arbitrary: la lb src ls)
  case Nil
  then show ?case by (subst unified_loop.simps) simp
next
  case (Cons l body)
  from Cons.prems(2) have r: "fst (readline src) = l" "pending (snd (readline src)) = body @ rest"
    using readline_pending [of src l "body @ rest"] by simp_all
  from Cons.prems(1) have nz: "la \<noteq> 0 \<or> lb \<noteq> 0" by simp
  show ?case
  proof (cases "l = [] \<or> l = [CHR 0x0A] \<or> l = [CHR 0x0D, CHR 0x0A]")
    case True
    with Cons.prems(1) have w: "wf_body (la - 1) (lb - 1) body" by auto
    from Cons.IH [OF w r(2), of "ls @ [(CHR '' '', l)]"] True r(1) nz show ?thesis
      by (subst unified_loop.simps) (auto simp: Let_def body_marker_def)
  next
    case False
    let ?la = "if hd l = CHR '' '' \<or> hd l = CHR ''-'' then la - 1 else la"
    let ?lb = "if hd l = CHR '' '' \<or> hd l = CHR ''+'' then lb - 1 else lb"
    from Cons.prems(1) False have w: "wf_body ?la ?lb body"
      by (auto split: if_splits)
    from Cons.IH [OF w r(2), of "ls @ [(hd l, tl l)]"] False r(1) nz show ?thesis
      by (subst unified_loop.simps) (auto simp: Let_def body_marker_def)
  qed
qed

lemma map_fst_butlast_last:
  "xs \<noteq> [] \<Longrightarrow> map fst (butlast xs) @ [fst (last xs)] = map fst xs"
  by (induction xs) auto

lemma fix_final_newline_markers:
  "fix_final_newline h = Inr h' \<Longrightarrow>
     map fst (lines h') = map fst (lines h) \<and> start_a h' = start_a h \<and> len_a h' = len_a h
     \<and> start_b h' = start_b h \<and> len_b h' = len_b h"
  by (auto simp: fix_final_newline_def Let_def map_fst_butlast_last split: if_splits)

lemmas header_defs = parse_unified_header_def UNIFIED_HUNK_RE_def re_lit_def re_spaces_def
  re_digits_def re_opt_len_def py_int_def startswith_def is_space_def is_digit_def

text \<open>
  Claim C5. Whenever \<open>_parse_unified\<close> returns, the hunk it has appended carries the
  header's four numbers, the number of its lines marked \<open>' '\<close> plus those marked
  \<open>'-'\<close> is the header's \<open>lenA\<close>, and the number marked \<open>' '\<close> plus those
  marked \<open>'+'\<close> is \<open>lenB\<close>. On a well-formed body it does return, and the markers
  stored are those of the body lines, a blank or empty line being stored as a context line
  (and counted, by the first part, against both lengths).
\<close>

theorem parse_unified_counts:
  "(parse_unified change line src = Some (Inr (change', src')) \<longrightarrow>
      (\<exists>h. hunks change' \<noteq> [] \<and> last (hunks change') = Text h
         \<and> (start_a h, len_a h, start_b h, len_b h) = parse_unified_header line
         \<and> count_marker (CHR '' '') (lines h) + count_marker (CHR ''-'') (lines h) = len_a h
         \<and> count_marker (CHR '' '') (lines h) + count_marker (CHR ''+'') (lines h) = len_b h))
   \<and> (parse_unified_header line = (sa, la, sb, lb) \<and> wf_body la lb body \<and> body \<noteq> []
        \<and> pending src = body @ rest \<longrightarrow>
      (\<exists>change' src' h. parse_unified change line src = Some (Inr (change', src'))
         \<and> last (hunks change') = Text h \<and> map fst (lines h) = map body_marker body))"
proof (intro conjI impI)
  assume r: "parse_unified change line src = Some (Inr (change', src'))"
  obtain sa la sb lb where hd: "parse_unified_header line = (sa, la, sb, lb)"
    by (cases "parse_unified_header line") auto
  from r hd obtain source1 ls where l: "unified_loop la lb src [] = Some (source1, ls)"
    by (auto simp: parse_unified_def new_TextHunk_def Let_def split: option.splits)
  from unified_loop_counts [OF l]
  have c: "count_marker (CHR '' '') ls + count_marker (CHR ''-'') ls = la"
          "count_marker (CHR '' '') ls + count_marker (CHR ''+'') ls = lb"
    by (simp_all add: count_marker_def)
  let ?h1 = "(new_TextHunk sa la sb lb)\<lparr>lines := ls\<rparr>"
  from r hd l obtain h where h: "hunks change' \<noteq> []" "last (hunks change') = Text h"
     and hh: "h = ?h1 \<or> fix_final_newline ?h1 = Inr h"
    by (auto simp: parse_unified_def new_TextHunk_def Let_def split: if_splits sum.splits)
  from hh have m: "map fst (lines h) = map fst ls" "start_a h = sa" "len_a h = la"
      "start_b h = sb" "len_b h = lb"
    using fix_final_newline_markers [of ?h1 h] by (auto simp: new_TextHunk_def)
  from m(1) have "\<And>k. count_marker k (lines h) = count_marker k ls"
    by (rule count_marker_map_fst)
  with c m h hd
  show "\<exists>h. hunks change' \<noteq> [] \<and> last (hunks change') = Text h
         \<and> (start_a h, len_a h, start_b h, len_b h) = parse_unified_header line
         \<and> count_marker (CHR '' '') (lines h) + count_marker (CHR ''-'') (lines h) = len_a h
         \<and> count_marker (CHR '' '') (lines h) + count_marker (CHR ''+'') (lines h) = len_b h"
    by auto
next
  assume a: "parse_unified_header line = (sa, la, sb, lb) \<and> wf_body la lb body \<and> body \<noteq> []
        \<and> pending src = body @ rest"
  then obtain source1 ls where l: "unified_loop la lb src [] = Some (source1, ls)"
      and p: "pending source1 = rest" and m: "map fst ls = map body_marker body"
    using unified_loop_wf [of la lb body src rest "[]"] by auto
  from m a have ne: "ls \<noteq> []" by auto
  let ?h1 = "(new_TextHunk sa la sb lb)\<lparr>lines := ls\<rparr>"
  from ne obtain h2 where f: "fix_final_newline ?h1 = Inr h2"
    by (auto simp: fix_final_newline_def Let_def new_TextHunk_def)
  from fix_final_newline_markers [OF f] m
  have m2: "map fst (lines h2) = map body_marker body" by (simp add: new_TextHunk_def)
  show "\<exists>change' src' h. parse_unified change line src = Some (Inr (change', src'))
         \<and> last (hunks change') = Text h \<and> map fst (lines h) = map body_marker body"
    using a l f m m2 p
    by (auto simp: parse_unified_def Let_def new_TextHunk_def)
qed


theorem parse_unified_counts_witness:
  "parse_unified (new_Change None None) ''@@ -1,3 +1,3 @@\<newline>''
      \<lparr>lb_f = ['' a\<newline>'', ''\<newline>'', ''-b\<newline>'', ''+c\<newline>'', ''diff x y\<newline>''], buffered = []\<rparr>
     = Some (Inr ((new_Change None None)\<lparr>hunks :=
            [Text \<lparr>start_a = 1, len_a = 3, start_b = 1, len_b = 3,
               lines = [(CHR '' '', ''a\<newline>''), (CHR '' '', ''\<newline>''),
                        (CHR ''-'', ''b\<newline>''), (CHR ''+'', ''c\<newline>'')]\<rparr>]\<rparr>,
          \<lparr>lb_f = [], buffered = [''diff x y\<newline>'']\<rparr>))
   \<and> parse_unified_header ''@@ -1,3 +1,3 @@\<newline>'' = (1, 3, 1, 3)
   \<and> wf_body 3 3 ['' a\<newline>'', ''\<newline>'', ''-b\<newline>'', ''+c\<newline>'']
   \<and> pending \<lparr>lb_f = ['' a\<newline>'', ''\<newline>'', ''-b\<newline>'', ''+c\<newline>'', ''diff x y\<newline>''], buffered = []\<rparr>
        = ['' a\<newline>'', ''\<newline>'', ''-b\<newline>'', ''+c\<newline>''] @ [''diff x y\<newline>'']
   \<and> count_marker (CHR '' '') [(CHR '' '', ''a\<newline>''), (CHR '' '', ''\<newline>''),
                        (CHR ''-'', ''b\<newline>''), (CHR ''+'', ''c\<newline>'')]
       + count_marker (CHR ''-'') [(CHR '' '', ''a\<newline>''), (CHR '' '', ''\<newline>''),
                        (CHR ''-'', ''b\<newline>''), (CHR ''+'', ''c\<newline>'')] = 3"
  using parse_unified_counts [of "new_Change None None" "''@@ -1,3 +1,3 @@\<newline>''"
        "\<lparr>lb_f = ['' a\<newline>'', ''\<newline>'', ''-b\<newline>'', ''+c\<newline>'', ''diff x y\<newline>''], buffered = []\<rparr>"
        "(new_Change None None)\<lparr>hunks :=
            [Text \<lparr>start_a = 1, len_a = 3, start_b = 1, len_b = 3,
               lines = [(CHR '' '', ''a\<newline>''), (CHR '' '', ''\<newline>''),
                        (CHR ''-'', ''b\<newline>''), (CHR ''+'', ''c\<newline>'')]\<rparr>]\<rparr>"
        "\<lparr>lb_f = [], buffered = [''diff x y\<newline>'']\<rparr>"
        1 3 1 3 "['' a\<newline>'', ''\<newline>'', ''-b\<newline>'', ''+c\<newline>'']" "[''diff x y\<newline>'']"]
  by (simp add: parse_unified_def header_defs new_TextHunk_def unified_loop.simps
        readline_def lb_next_def push_def new_Change_def pending_def count_marker_def Let_def
        body_marker_def)

text \<open>
  Claim C7 at the failing input: the header \<open>@@ -1,3 +1,3 @@\<close> followed by the two
  lines \<open>" a"\<close>, \<open>"-b"\<close> and the end of the input. At the end of the input the
  counters are 1 and 2; every further \<open>readline\<close> returns the empty string and lowers
  both, so \<open>while la or lb\<close> never exits. When the counters are equal at the end of the
  input (second conjunct) the call returns, after storing one empty context line per
  missing line.
\<close>

theorem parse_unified_truncated_diverges:
  "parse_unified (new_Change None None) ''@@ -1,3 +1,3 @@\<newline>''
      \<lparr>lb_f = ['' a\<newline>'', ''-b\<newline>''], buffered = []\<rparr> = None
   \<and> parse_unified (new_Change None None) ''@@ -1,2 +1,2 @@\<newline>''
      \<lparr>lb_f = ['' a\<newline>''], buffered = []\<rparr>
      = Some (Inr ((new_Change None None)\<lparr>hunks :=
            [Text \<lparr>start_a = 1, len_a = 2, start_b = 1, len_b = 2,
               lines = [(CHR '' '', ''a\<newline>''), (CHR '' '', [])]\<rparr>]\<rparr>,
          \<lparr>lb_f = [], buffered = [[]]\<rparr>))"
proof -
  have h: "parse_unified_header ''@@ -1,3 +1,3 @@\<newline>'' = (1, 3, 1, 3)"
    by (simp add: header_defs)
  have d: "unified_loop 1 2 \<lparr>lb_f = [], buffered = []\<rparr>
             [(CHR '' '', ''a\<newline>''), (CHR ''-'', ''b\<newline>'')] = None"
    by (rule unified_loop_eof_diverges) (simp_all add: pending_def)
  have "unified_loop 3 3 \<lparr>lb_f = ['' a\<newline>'', ''-b\<newline>''], buffered = []\<rparr> [] = None"
    apply (subst unified_loop.simps)
    apply (simp add: readline_def lb_next_def)
    apply (subst unified_loop.simps)
    apply (simp add: readline_def lb_next_def d)
    done
  with h have 1: "parse_unified (new_Change None None) ''@@ -1,3 +1,3 @@\<newline>''
      \<lparr>lb_f = ['' a\<newline>'', ''-b\<newline>''], buffered = []\<rparr> = None"
    by (simp add: parse_unified_def new_TextHunk_def)
  have 2: "parse_unified (new_Change None None) ''@@ -1,2 +1,2 @@\<newline>''
      \<lparr>lb_f = ['' a\<newline>''], buffered = []\<rparr>
      = Some (Inr ((new_Change None None)\<lparr>hunks :=
            [Text \<lparr>start_a = 1, len_a = 2, start_b = 1, len_b = 2,
               lines = [(CHR '' '', ''a\<newline>''), (CHR '' '', [])]\<rparr>]\<rparr>,
          \<lparr>lb_f = [], buffered = [[]]\<rparr>))"
    by (simp add: parse_unified_def header_defs new_TextHunk_def unified_loop.simps
          readline_def lb_next_def push_def new_Change_def Let_def)
  from 1 2 show ?thesis by simp
qed

section \<open>Properties of the escape decoder\<close>

lemmas unescape_defs = unescape_c_def unescape_piece_def UNI_RE_match_def startswith_def
  ESCAPE_RE_tail_def process_escape_def ESCAPES_def then_e_def is_hex_def is_digit_def
  is_octal_def latin_1_def py_int_base_def digit_val_def unichr_def is_digit_of_def
  has_base_prefix_def is_space_def Let_def

text \<open>Every octal escape and every \<open>\x\<close> escape ends \<open>process_escape\<close> in NameError.\<close>

lemma process_escape_hex:
  "process_escape (CHR 0x5C # CHR ''x'' # ds) = Inl (NameError ''e'')"
  by (simp add: process_escape_def ESCAPES_def startswith_def)

lemma map_of_ESCAPES_octal: "is_octal d \<Longrightarrow> map_of ESCAPES (CHR 0x5C # d # ds) = None"
  unfolding ESCAPES_def is_octal_def by (cases ds) auto

lemma process_escape_octal:
  "is_octal d \<Longrightarrow> process_escape (CHR 0x5C # d # ds) = Inl (NameError ''e'')"
  by (simp add: process_escape_def map_of_ESCAPES_octal)

lemma unescape_c_octal_any_codec:
  "unescape_c decode [CHR 0x5C, CHR ''1'', CHR ''0'', CHR ''1''] = Inl (NameError ''e'')"
  by (simp add: unescape_defs)

text \<open>
  A piece that starts with \<open>\u\<close> without being a match of \<open>_UNI_RE\<close> is handed to
  \<open>int\<close> as well, which accepts blanks around the digits.
\<close>

lemma unescape_c_u_blank:
  "unescape_c latin_1 [CHR 0x5C, CHR ''u'', CHR '' '', CHR ''4'', CHR ''1''] = Inr [0x41]"
  by (simp add: unescape_defs)

text \<open>
  Claim C9 at the failing inputs: the four-character strings \<open>\101\<close> (octal for
  \<open>A\<close>) and \<open>\x41\<close>, decoded as latin-1. Both calls raise NameError, because
  \<open>process_escape\<close> reads \<open>e\<close> where it has bound \<open>esc\<close>; no character is
  produced. The \<open>\uXXXX\<close> escape and the single-letter escapes are decoded.
\<close>

theorem unescape_c_octal_hex_NameError:
  "unescape_c latin_1 [CHR 0x5C, CHR ''1'', CHR ''0'', CHR ''1''] = Inl (NameError ''e'')
   \<and> unescape_c latin_1 [CHR 0x5C, CHR ''x'', CHR ''4'', CHR ''1''] = Inl (NameError ''e'')
   \<and> unescape_c latin_1 [CHR 0x5C, CHR ''u'', CHR ''0'', CHR ''0'', CHR ''4'', CHR ''1''] = Inr [0x41]
   \<and> unescape_c latin_1 [CHR ''a'', CHR 0x5C, CHR ''t'', CHR ''b''] = Inr [0x61, 0x09, 0x62]"
  by (simp add: unescape_defs)


section \<open>Properties of the context hunk parser\<close>

text \<open>Once the inner loop inserts, it inserts forever.\<close>

lemma merge_stuck_step:
  "merge_stuck ls ndx n \<Longrightarrow> merge_stuck (list_insert ndx n ls) (Suc ndx) n"
  by (auto simp: merge_stuck_def list_insert_def Let_def nth_append min_def)

lemma merge_loop_not_stuck:
  "merge_loop ls ndx n = Some y \<Longrightarrow> \<not> merge_stuck ls ndx n"
  apply (erule merge_loop.raw_induct [rotated, where P = "\<lambda>ls ndx n y. \<not> merge_stuck ls ndx n"])
  subgoal premises p for loop ls ndx n y
  proof
    assume st: "merge_stuck ls ndx n"
    with p(2) have "loop (list_insert ndx n ls) (Suc ndx) n = Some y"
      by (auto simp: merge_stuck_def Let_def split: if_splits)
    from p(1)[OF this] merge_stuck_step[OF st] show False by simp
  qed
  done

lemma merge_loop_insert_diverges: "merge_stuck ls ndx n \<Longrightarrow> merge_loop ls ndx n = None"
  using merge_loop_not_stuck [of ls ndx n] by (cases "merge_loop ls ndx n") auto

lemmas context_defs = parse_context_def parse_context_header_def CONTEXT_HUNK_RE_def
  re_dashes_or_stars_def re_lit_def re_spaces_def re_digits_def re_opt_len_def py_int_def
  startswith_def is_space_def is_digit_def new_TextHunk_def no_newline_check_def
  context_first_loop.simps context_second_loop.simps readline_def lb_next_def push_def
  new_Change_def new_Add_def new_Delete_def Let_def fix_final_newline_def

text \<open>
  Claim C8 at the failing inputs. First, as \<open>parse\<close> calls it: \<open>line\<close> is the row of
  asterisks, and the hunk \<open>*** 1 ****\<close>, \<open>  a\<close>, \<open>--- 1 ----\<close>, \<open>  a\<close> follows.
  The row of asterisks does not match the header pattern, so both passes see the range
  \<open>0,0\<close>: no line of the hunk is read, the \<open>---\<close> header is never looked at, the stored
  hunk is empty and the change has become a \<open>Delete\<close> without a name. Second, called on
  the \<open>*** 1 ****\<close> line itself: the second pass parses that same line again, reads the
  \<open>--- 1 ----\<close> line as a body line and raises UnboundLocalError. Third, the merge
  step on the list \<open>[(' ', a)]\<close> at position 1 with the new line \<open>('+', b)\<close> never
  returns.
\<close>

theorem parse_context_ignores_new_side:
  "parse_context (new_Change (Some (S ''x'')) (Some (S ''x''))) ''***************\<newline>''
      \<lparr>lb_f = [''*** 1 ****\<newline>'', ''  a\<newline>'', ''--- 1 ----\<newline>'', ''  a\<newline>''], buffered = []\<rparr>
     = Some (Inr ((new_Delete None None)\<lparr>hunks :=
            [Text \<lparr>start_a = 0, len_a = 0, start_b = 0, len_b = 0, lines = []\<rparr>]\<rparr>,
          \<lparr>lb_f = [''  a\<newline>'', ''--- 1 ----\<newline>'', ''  a\<newline>''],
             buffered = [''*** 1 ****\<newline>'']\<rparr>))
   \<and> parse_context (new_Change (Some (S ''x'')) (Some (S ''x''))) ''*** 1 ****\<newline>''
      \<lparr>lb_f = [''  a\<newline>'', ''--- 1 ----\<newline>'', ''  a\<newline>''], buffered = []\<rparr>
     = Some (Inl (UnboundLocalError ''n''))
   \<and> merge_loop [(CHR '' '', ''a\<newline>'')] 1 (CHR ''+'', ''b\<newline>'') = None"
proof -
  have "merge_loop [(CHR '' '', ''a\<newline>'')] 1 (CHR ''+'', ''b\<newline>'') = None"
    by (rule merge_loop_insert_diverges) (simp add: merge_stuck_def)
  then show ?thesis
    by (simp add: context_defs)
qed

section \<open>Upgrading the change in progress\<close>

lemma handler_hunks:
  "handle_rename_from line g1 c defname decode = Inr r \<Longrightarrow>
     hunks r = (if cls c = Rename then hunks c else [])"
  "handle_rename_to line g1 c defname decode = Inr r \<Longrightarrow>
     hunks r = (if cls c = Rename then hunks c else [])"
  "handle_copy_from line g1 c defname decode = Inr r \<Longrightarrow>
     hunks r = (if cls c = Copy then hunks c else [])"
  "handle_copy_to line g1 c defname decode = Inr r \<Longrightarrow>
     hunks r = (if cls c = Copy then hunks c else [])"
  "handle_delete line g1 c defname decode = Inr r \<Longrightarrow> hunks r = []"
  "handle_new line g1 c defname decode = Inr r \<Longrightarrow> hunks r = []"
  by (auto simp: handle_rename_from_def handle_rename_to_def handle_copy_from_def
        handle_copy_to_def handle_delete_def handle_new_def then_e_def
        new_Rename_def new_Copy_def new_Delete_def new_Add_def new_Change_def
      split: sum.splits if_splits)

lemma parse_unified_hunks:
  "parse_unified c line src = Some (Inr (r, src')) \<Longrightarrow>
     \<exists>h. hunks r = (if unified_upgrades c line then [] else hunks c) @ [Text h]"
  by (cases "parse_unified_header line")
     (auto simp: parse_unified_def unified_upgrades_def Let_def
        new_Delete_def new_Add_def new_Change_def
      split: option.splits sum.splits if_splits)

lemma parse_context_hunks:
  "parse_context c line src = Some (Inr (r, src')) \<Longrightarrow>
     \<exists>h. hunks r = (if context_upgrades c line then [] else hunks c) @ [Text h]"
  by (cases "parse_context_header line")
     (auto simp: parse_context_def context_upgrades_def Let_def
        new_Delete_def new_Add_def new_Change_def
      split: option.splits sum.splits if_splits prod.splits)


text \<open>
  Claim C1, as stated, at a concrete input: a change that already holds one hunk meets a
  second unified hunk header with the range \<open>-0,0\<close>. The change returned is a new
  \<open>Add\<close> whose only hunk is the one just parsed; the hunk attached before is gone. The
  handler of \<open>deleted file mode\<close> on the same change returns a \<open>Delete\<close> without
  hunks.
\<close>

theorem upgrade_keeps_hunks_counterexample:
  "hunks ((new_Change (Some (S ''x'')) (Some (S ''x'')))\<lparr>hunks := [Text \<lparr>start_a = 1, len_a = 1, start_b = 1, len_b = 1, lines = [(CHR ''-'', ''a\<newline>''), (CHR ''+'', ''b\<newline>'')]\<rparr>]\<rparr>) = [Text \<lparr>start_a = 1, len_a = 1, start_b = 1, len_b = 1,
                  lines = [(CHR ''-'', ''a\<newline>''), (CHR ''+'', ''b\<newline>'')]\<rparr>]
   \<and> map_option (map_sum id (\<lambda>r. hunks (fst r)))
         (parse_unified ((new_Change (Some (S ''x'')) (Some (S ''x'')))\<lparr>hunks := [Text \<lparr>start_a = 1, len_a = 1, start_b = 1, len_b = 1, lines = [(CHR ''-'', ''a\<newline>''), (CHR ''+'', ''b\<newline>'')]\<rparr>]\<rparr>) ''@@ -0,0 +1 @@\<newline>'' \<lparr>lb_f = [''+c\<newline>''], buffered = []\<rparr>)
       = Some (Inr [Text \<lparr>start_a = 0, len_a = 0, start_b = 1, len_b = 1, lines = [(CHR ''+'', ''c\<newline>'')]\<rparr>])
   \<and> map_sum id hunks
         (handle_delete ''deleted file mode 100644'' ''100644'' ((new_Change (Some (S ''x'')) (Some (S ''x'')))\<lparr>hunks := [Text \<lparr>start_a = 1, len_a = 1, start_b = 1, len_b = 1, lines = [(CHR ''-'', ''a\<newline>''), (CHR ''+'', ''b\<newline>'')]\<rparr>]\<rparr>) (Some (S ''x'')) latin_1)
       = Inr []"
  by (simp add: handle_delete_def then_e_def py_int_base_def digit_val_def is_hex_def
        is_digit_of_def has_base_prefix_def
        parse_unified_def header_defs unified_loop.simps new_TextHunk_def
        readline_def lb_next_def push_def new_Change_def new_Add_def new_Delete_def Let_def)

text \<open>
  Claim C1, amended. An upgrade builds a new change object, and a new object starts with
  an empty hunk list: after a rename or copy handler on a change of another class, and
  after the handlers of \<open>deleted file mode\<close> and \<open>new file mode\<close> on any change, the
  change has no hunks; after a unified or context hunk header that upgrades, its only hunk
  is the one just parsed. The hunks attached before are kept, in their order, exactly when
  no new object is built: by a rename or copy handler on a change that already is of that
  class, and by a hunk header that does not upgrade (then the new hunk is appended).
\<close>

theorem upgrade_starts_empty:
  "(handle_rename_from l1 g1 c defname decode = Inr r1 \<longrightarrow>
      hunks r1 = (if cls c = Rename then hunks c else []))
   \<and> (handle_rename_to l2 g2 c defname decode = Inr r2 \<longrightarrow>
      hunks r2 = (if cls c = Rename then hunks c else []))
   \<and> (handle_copy_from l3 g3 c defname decode = Inr r3 \<longrightarrow>
      hunks r3 = (if cls c = Copy then hunks c else []))
   \<and> (handle_copy_to l4 g4 c defname decode = Inr r4 \<longrightarrow>
      hunks r4 = (if cls c = Copy then hunks c else []))
   \<and> (handle_delete l5 g5 c defname decode = Inr r5 \<longrightarrow> hunks r5 = [])
   \<and> (handle_new l6 g6 c defname decode = Inr r6 \<longrightarrow> hunks r6 = [])
   \<and> (parse_unified c uline usrc = Some (Inr (r7, usrc')) \<longrightarrow>
        (\<exists>h. hunks r7 = (if unified_upgrades c uline then [] else hunks c) @ [Text h]))
   \<and> (parse_context c cline csrc = Some (Inr (r8, csrc')) \<longrightarrow>
        (\<exists>h. hunks r8 = (if context_upgrades c cline then [] else hunks c) @ [Text h]))"
  using handler_hunks [of _ _ c defname decode]
    parse_unified_hunks [of c uline usrc r7 usrc'] parse_context_hunks [of c cline csrc r8 csrc']
  by blast

theorem upgrade_starts_empty_witness:
  "handle_rename_from ''rename from a'' ''a'' ((new_Change (Some (S ''x'')) (Some (S ''x'')))\<lparr>hunks := [Text \<lparr>start_a = 1, len_a = 1, start_b = 1, len_b = 1, lines = [(CHR ''-'', ''a\<newline>''), (CHR ''+'', ''b\<newline>'')]\<rparr>]\<rparr>) (Some (S ''x'')) latin_1
     = Inr (new_Rename (Some (S ''a'')) None)
   \<and> handle_rename_to ''rename to a'' ''a'' ((new_Change (Some (S ''x'')) (Some (S ''x'')))\<lparr>hunks := [Text \<lparr>start_a = 1, len_a = 1, start_b = 1, len_b = 1, lines = [(CHR ''-'', ''a\<newline>''), (CHR ''+'', ''b\<newline>'')]\<rparr>]\<rparr>) (Some (S ''x'')) latin_1
     = Inr (new_Rename None (Some (S ''a'')))
   \<and> handle_copy_from ''copy from a'' ''a'' ((new_Change (Some (S ''x'')) (Some (S ''x'')))\<lparr>hunks := [Text \<lparr>start_a = 1, len_a = 1, start_b = 1, len_b = 1, lines = [(CHR ''-'', ''a\<newline>''), (CHR ''+'', ''b\<newline>'')]\<rparr>]\<rparr>) (Some (S ''x'')) latin_1
     = Inr (new_Copy (Some (S ''a'')) None)
   \<and> handle_copy_to ''copy to a'' ''a'' ((new_Change (Some (S ''x'')) (Some (S ''x'')))\<lparr>hunks := [Text \<lparr>start_a = 1, len_a = 1, start_b = 1, len_b = 1, lines = [(CHR ''-'', ''a\<newline>''), (CHR ''+'', ''b\<newline>'')]\<rparr>]\<rparr>) (Some (S ''x'')) latin_1
     = Inr (new_Copy None (Some (S ''a'')))
   \<and> handle_delete ''deleted file mode 100644'' ''100644'' ((new_Change (Some (S ''x'')) (Some (S ''x'')))\<lparr>hunks := [Text \<lparr>start_a = 1, len_a = 1, start_b = 1, len_b = 1, lines = [(CHR ''-'', ''a\<newline>''), (CHR ''+'', ''b\<newline>'')]\<rparr>]\<rparr>) (Some (S ''x'')) latin_1
     = Inr (new_Delete (Some (S ''x'')) (Some 33188))
   \<and> handle_new ''new file mode 100644'' ''100644'' ((new_Change (Some (S ''x'')) (Some (S ''x'')))\<lparr>hunks := [Text \<lparr>start_a = 1, len_a = 1, start_b = 1, len_b = 1, lines = [(CHR ''-'', ''a\<newline>''), (CHR ''+'', ''b\<newline>'')]\<rparr>]\<rparr>) (Some (S ''x'')) latin_1
     = Inr (new_Add (Some (S ''x'')) (Some 33188))
   \<and> parse_unified ((new_Change (Some (S ''x'')) (Some (S ''x'')))\<lparr>hunks := [Text \<lparr>start_a = 1, len_a = 1, start_b = 1, len_b = 1, lines = [(CHR ''-'', ''a\<newline>''), (CHR ''+'', ''b\<newline>'')]\<rparr>]\<rparr>) ''@@ -0,0 +1 @@\<newline>'' \<lparr>lb_f = [''+c\<newline>''], buffered = []\<rparr> = Some (Inr (((new_Add (Some (S ''x'')) None)\<lparr>hunks := [Text \<lparr>start_a = 0, len_a = 0, start_b = 1, len_b = 1, lines = [(CHR ''+'', ''c\<newline>'')]\<rparr>]\<rparr>), \<lparr>lb_f = [], buffered = [[]]\<rparr>))
   \<and> parse_context ((new_Change (Some (S ''x'')) (Some (S ''x'')))\<lparr>hunks := [Text \<lparr>start_a = 1, len_a = 1, start_b = 1, len_b = 1, lines = [(CHR ''-'', ''a\<newline>''), (CHR ''+'', ''b\<newline>'')]\<rparr>]\<rparr>) ''***************\<newline>'' \<lparr>lb_f = [''*** 0 ****\<newline>''], buffered = []\<rparr> = Some (Inr (((new_Delete None None)\<lparr>hunks := [Text \<lparr>start_a = 0, len_a = 0, start_b = 0, len_b = 0, lines = []\<rparr>]\<rparr>), \<lparr>lb_f = [], buffered = [''*** 0 ****\<newline>'']\<rparr>))
   \<and> hunks (new_Rename (Some (S ''a'')) None) = []
   \<and> hunks (new_Delete (Some (S ''x'')) (Some 33188)) = []
   \<and> unified_upgrades ((new_Change (Some (S ''x'')) (Some (S ''x'')))\<lparr>hunks := [Text \<lparr>start_a = 1, len_a = 1, start_b = 1, len_b = 1, lines = [(CHR ''-'', ''a\<newline>''), (CHR ''+'', ''b\<newline>'')]\<rparr>]\<rparr>) ''@@ -0,0 +1 @@\<newline>''
   \<and> context_upgrades ((new_Change (Some (S ''x'')) (Some (S ''x'')))\<lparr>hunks := [Text \<lparr>start_a = 1, len_a = 1, start_b = 1, len_b = 1, lines = [(CHR ''-'', ''a\<newline>''), (CHR ''+'', ''b\<newline>'')]\<rparr>]\<rparr>) ''***************\<newline>''
   \<and> hunks ((new_Add (Some (S ''x'')) None)\<lparr>hunks := [Text \<lparr>start_a = 0, len_a = 0, start_b = 1, len_b = 1, lines = [(CHR ''+'', ''c\<newline>'')]\<rparr>]\<rparr>) = [Text \<lparr>start_a = 0, len_a = 0, start_b = 1, len_b = 1, lines = [(CHR ''+'', ''c\<newline>'')]\<rparr>]
   \<and> hunks ((new_Delete None None)\<lparr>hunks := [Text \<lparr>start_a = 0, len_a = 0, start_b = 0, len_b = 0, lines = []\<rparr>]\<rparr>) = [Text \<lparr>start_a = 0, len_a = 0, start_b = 0, len_b = 0, lines = []\<rparr>]"
  using upgrade_starts_empty [where c = "((new_Change (Some (S ''x'')) (Some (S ''x'')))\<lparr>hunks := [Text \<lparr>start_a = 1, len_a = 1, start_b = 1, len_b = 1, lines = [(CHR ''-'', ''a\<newline>''), (CHR ''+'', ''b\<newline>'')]\<rparr>]\<rparr>)" and defname = "Some (S ''x'')" and decode = latin_1
      and ?l1.0 = "''rename from a''" and ?g1.0 = "''a''" and ?r1.0 = "new_Rename (Some (S ''a'')) None"
      and ?l2.0 = "''rename to a''" and ?g2.0 = "''a''" and ?r2.0 = "new_Rename None (Some (S ''a''))"
      and ?l3.0 = "''copy from a''" and ?g3.0 = "''a''" and ?r3.0 = "new_Copy (Some (S ''a'')) None"
      and ?l4.0 = "''copy to a''" and ?g4.0 = "''a''" and ?r4.0 = "new_Copy None (Some (S ''a''))"
      and ?l5.0 = "''deleted file mode 100644''" and ?g5.0 = "''100644''"
      and ?r5.0 = "new_Delete (Some (S ''x'')) (Some 33188)"
      and ?l6.0 = "''new file mode 100644''" and ?g6.0 = "''100644''"
      and ?r6.0 = "new_Add (Some (S ''x'')) (Some 33188)"
      and uline = "''@@ -0,0 +1 @@\<newline>''" and usrc = "\<lparr>lb_f = [''+c\<newline>''], buffered = []\<rparr>" and ?r7.0 = "((new_Add (Some (S ''x'')) None)\<lparr>hunks := [Text \<lparr>start_a = 0, len_a = 0, start_b = 1, len_b = 1, lines = [(CHR ''+'', ''c\<newline>'')]\<rparr>]\<rparr>)" and usrc' = "\<lparr>lb_f = [], buffered = [[]]\<rparr>"
      and cline = "''***************\<newline>''" and csrc = "\<lparr>lb_f = [''*** 0 ****\<newline>''], buffered = []\<rparr>" and ?r8.0 = "((new_Delete None None)\<lparr>hunks := [Text \<lparr>start_a = 0, len_a = 0, start_b = 0, len_b = 0, lines = []\<rparr>]\<rparr>)" and csrc' = "\<lparr>lb_f = [], buffered = [''*** 0 ****\<newline>'']\<rparr>"]
  by (simp add: handle_rename_from_def handle_rename_to_def handle_copy_from_def
        handle_copy_to_def handle_delete_def handle_new_def extract_name_def strip_def
        then_e_def py_int_base_def digit_val_def is_hex_def is_digit_of_def has_base_prefix_def
        parse_unified_def header_defs context_defs unified_loop.simps
        new_Rename_def new_Copy_def unified_upgrades_def context_upgrades_def)

section \<open>Properties of the binary hunk parser\<close>

lemma raise_BadBinaryHunk: "raise_exc ''BadBinaryHunk'' msg = Raised ''BadBinaryHunk'' msg"
  by (simp add: raise_exc_def exceptions_names_def)

lemma binary_data_loop_step:
  assumes "pending src = g # rest" and "data_chunk b85 g = Some ch"
  shows "binary_data_loop b85 src dat = binary_data_loop b85 (snd (readline src)) (dat @ [ch])"
proof -
  from assms(1) have r: "fst (readline src) = g" using readline_pending by blast
  from assms(2) r show ?thesis
    by (subst binary_data_loop.simps)
       (auto simp: data_chunk_def Let_def split: if_splits option.splits sum.splits)
qed

lemma binary_data_loop_good:
  "\<forall>g\<in>set good. data_chunk b85 g \<noteq> None \<Longrightarrow> pending src = good @ rest \<Longrightarrow>
     \<exists>src1. pending src1 = rest \<and>
        binary_data_loop b85 src dat
          = binary_data_loop b85 src1 (dat @ map (\<lambda>g. the (data_chunk b85 g)) good)"
proof (induction good arbitrary: src dat)
  case Nil
  then show ?case by auto
next
  case (Cons g good)
  from Cons.prems(1) obtain ch where ch: "data_chunk b85 g = Some ch" by auto
  from Cons.prems(2) have p: "pending src = g # (good @ rest)" by simp
  then have p': "pending (snd (readline src)) = good @ rest" using readline_pending by blast
  from Cons.prems(1) have "\<forall>g\<in>set good. data_chunk b85 g \<noteq> None" by simp
  from Cons.IH [OF this p', of "dat @ [ch]"] binary_data_loop_step [OF p ch, of dat] ch
  show ?case by auto
qed

lemma chunk_length_range: "chunk_length c = Some n \<Longrightarrow> 1 \<le> n \<and> n \<le> 52"
  by (auto simp: chunk_length_def Let_def split: if_splits)

lemma data_chunk_length:
  "data_chunk b85 g = Some ch \<Longrightarrow>
     \<exists>n d. chunk_length (hd (strip g)) = Some n \<and> b85 (tl (strip g)) = Inr d
        \<and> n \<le> length d \<and> ch = take n d \<and> length ch = n"
  by (auto simp: data_chunk_def Let_def split: if_splits option.splits sum.splits)

lemmas binary_eval = binary_data_loop.simps base85_decode.simps base85_group_def
  base85_alphabet_def strip_def is_space_def chunk_length_def then_e_def readline_def
  lb_next_def push_def pending_def data_chunk_def raise_BadBinaryHunk Let_def char_of_def

lemma parse_binary_hunk_reverse:
  "parse_binary_hunk b85 inflate src rv = Inr (Some h, src') \<Longrightarrow> reverse h = rv"
  by (auto simp: parse_binary_hunk_def Let_def split: option.splits sum.splits if_splits prod.splits)

text \<open>The length byte: \<open>A\<close>..\<open>Z\<close> stand for 1..26, \<open>a\<close>..\<open>z\<close> for 27..52, and
  no other character is a length byte.\<close>

lemma chunk_length_upper: "map chunk_length ''ABCDEFGHIJKLMNOPQRSTUVWXYZ'' = map Some [1..<27]"
  by (simp add: chunk_length_def upt_rec)

lemma chunk_length_lower: "map chunk_length ''abcdefghijklmnopqrstuvwxyz'' = map Some [27..<53]"
  by (simp add: chunk_length_def upt_rec)

lemma char_of_upper: "\<forall>n\<in>set [65..<91]. char_of (n::nat) \<in> set ''ABCDEFGHIJKLMNOPQRSTUVWXYZ''"
  by code_simp

lemma char_of_lower: "\<forall>n\<in>set [97..<123]. char_of (n::nat) \<in> set ''abcdefghijklmnopqrstuvwxyz''"
  by code_simp

lemma chunk_length_letters:
  "chunk_length c \<noteq> None \<Longrightarrow>
     c \<in> set ''ABCDEFGHIJKLMNOPQRSTUVWXYZ'' \<or> c \<in> set ''abcdefghijklmnopqrstuvwxyz''"
proof -
  assume a: "chunk_length c \<noteq> None"
  let ?n = "of_char c :: nat"
  have c: "char_of ?n = c" by simp
  from a have "(65 \<le> ?n \<and> ?n < 91) \<or> (97 \<le> ?n \<and> ?n < 123)"
    by (auto simp: chunk_length_def Let_def split: if_splits)
  then have "?n \<in> set [65..<91] \<or> ?n \<in> set [97..<123]"
    by (simp only: set_upt atLeastLessThan_iff)
  with char_of_upper char_of_lower c show ?thesis by metis
qed


text \<open>
  Claim C6. Let the source deliver the data lines \<open>good\<close>, each of which passes the
  checks, and then \<open>rest\<close>. If \<open>rest\<close> starts with a blank line (or the input ends),
  the loop returns the chunks of the data lines in order, appended to what was collected
  before, and has consumed the blank line. If the next line is a data line (not blank),
  then, whatever its length: if its first character is not a length byte, or the rest of
  the line decodes to fewer bytes than the length byte declares, or the line has a bad
  length, the loop raises BadBinaryHunk (with the message of the first check that fails,
  the length of the line being checked first); an exception of the decoder is passed on.
  So no data line is truncated or dropped silently. Every chunk kept has exactly the
  declared length. The length byte is \<open>A\<close>..\<open>Z\<close> for 1..26 and \<open>a\<close>..\<open>z\<close> for
  27..52, and nothing else.
\<close>

theorem binary_data_lines:
  assumes "pending src = good @ rest" and "\<forall>g\<in>set good. data_chunk b85 g \<noteq> None"
  shows "(rest = [] \<or> strip (hd rest) = [] \<longrightarrow>
            (\<exists>src'. binary_data_loop b85 src dat
                      = Inr (dat @ map (\<lambda>g. the (data_chunk b85 g)) good, src')
                \<and> pending src' = tl rest))
       \<and> (rest \<noteq> [] \<and> strip (hd rest) \<noteq> []
            \<and> (length (strip (hd rest)) < 6 \<or> (length (strip (hd rest)) - 1) mod 5 \<noteq> 0) \<longrightarrow>
          binary_data_loop b85 src dat
            = Inl (Raised ''BadBinaryHunk'' ''corrupt binary patch - bad line length''))
       \<and> (rest \<noteq> [] \<and> strip (hd rest) \<noteq> [] \<and> chunk_length (hd (strip (hd rest))) = None \<longrightarrow>
          binary_data_loop b85 src dat
            = Inl (Raised ''BadBinaryHunk''
                 (if length (strip (hd rest)) < 6 \<or> (length (strip (hd rest)) - 1) mod 5 \<noteq> 0
                  then ''corrupt binary patch - bad line length''
                  else ''corrupt binary patch - bad length byte'')))
       \<and> (rest \<noteq> [] \<and> strip (hd rest) \<noteq> []
            \<and> chunk_length (hd (strip (hd rest))) = Some n \<and> b85 (tl (strip (hd rest))) = Inr d
            \<and> length d < n \<longrightarrow>
          binary_data_loop b85 src dat
            = Inl (Raised ''BadBinaryHunk''
                 (if length (strip (hd rest)) < 6 \<or> (length (strip (hd rest)) - 1) mod 5 \<noteq> 0
                  then ''corrupt binary patch - bad line length''
                  else ''corrupt binary patch - length mismatch'')))
       \<and> (rest \<noteq> [] \<and> 6 \<le> length (strip (hd rest)) \<and> (length (strip (hd rest)) - 1) mod 5 = 0
            \<and> chunk_length (hd (strip (hd rest))) = Some n \<and> b85 (tl (strip (hd rest))) = Inl e \<longrightarrow>
          binary_data_loop b85 src dat = Inl e)
       \<and> (\<forall>g\<in>set good. \<exists>k e. chunk_length (hd (strip g)) = Some k \<and> 1 \<le> k \<and> k \<le> 52
              \<and> b85 (tl (strip g)) = Inr e \<and> k \<le> length e
              \<and> the (data_chunk b85 g) = take k e \<and> length (the (data_chunk b85 g)) = k)
       \<and> map chunk_length ''ABCDEFGHIJKLMNOPQRSTUVWXYZ'' = map Some [1..<27]
       \<and> map chunk_length ''abcdefghijklmnopqrstuvwxyz'' = map Some [27..<53]
       \<and> (chunk_length c \<noteq> None \<longrightarrow>
            c \<in> set ''ABCDEFGHIJKLMNOPQRSTUVWXYZ'' \<or> c \<in> set ''abcdefghijklmnopqrstuvwxyz'')"
proof -
  let ?l = "strip (hd rest)"
  let ?bad = "length ?l < 6 \<or> (length ?l - 1) mod 5 \<noteq> 0"
  from binary_data_loop_good [OF assms(2) assms(1), of dat] obtain src1 where
    p: "pending src1 = rest" and
    e: "binary_data_loop b85 src dat
          = binary_data_loop b85 src1 (dat @ map (\<lambda>g. the (data_chunk b85 g)) good)"
    by blast
  have 1: "rest = [] \<or> ?l = [] \<longrightarrow>
            (\<exists>src'. binary_data_loop b85 src dat
                      = Inr (dat @ map (\<lambda>g. the (data_chunk b85 g)) good, src')
                \<and> pending src' = tl rest)"
  proof
    assume t: "rest = [] \<or> ?l = []"
    show "\<exists>src'. binary_data_loop b85 src dat
                      = Inr (dat @ map (\<lambda>g. the (data_chunk b85 g)) good, src')
                \<and> pending src' = tl rest"
    proof (cases rest)
      case Nil
      with p have "readline src1 = ([], src1)" by (simp add: readline_eof)
      with e p Nil show ?thesis by (subst (asm) binary_data_loop.simps) simp
    next
      case (Cons l rest')
      with p have "fst (readline src1) = l" "pending (snd (readline src1)) = rest'"
        using readline_pending [of src1 l rest'] by simp_all
      with e t Cons show ?thesis by (subst (asm) binary_data_loop.simps) simp
    qed
  qed
  have r: "rest \<noteq> [] \<Longrightarrow> fst (readline src1) = hd rest"
    using p readline_pending [of src1 "hd rest" "tl rest"] by simp
  have 2: "rest \<noteq> [] \<and> ?l \<noteq> [] \<and> ?bad \<longrightarrow>
          binary_data_loop b85 src dat
            = Inl (Raised ''BadBinaryHunk'' ''corrupt binary patch - bad line length'')"
    using e r by (subst (asm) binary_data_loop.simps) (auto simp: raise_BadBinaryHunk Let_def)
  have 3: "rest \<noteq> [] \<and> ?l \<noteq> [] \<and> chunk_length (hd ?l) = None \<longrightarrow>
          binary_data_loop b85 src dat
            = Inl (Raised ''BadBinaryHunk''
                 (if ?bad then ''corrupt binary patch - bad line length''
                  else ''corrupt binary patch - bad length byte''))"
    using e r by (subst (asm) binary_data_loop.simps) (auto simp: raise_BadBinaryHunk Let_def)
  have 4: "rest \<noteq> [] \<and> ?l \<noteq> [] \<and> chunk_length (hd ?l) = Some n \<and> b85 (tl ?l) = Inr d
            \<and> length d < n \<longrightarrow>
          binary_data_loop b85 src dat
            = Inl (Raised ''BadBinaryHunk''
                 (if ?bad then ''corrupt binary patch - bad line length''
                  else ''corrupt binary patch - length mismatch''))"
    using e r by (subst (asm) binary_data_loop.simps) (auto simp: raise_BadBinaryHunk Let_def)
  have 5: "rest \<noteq> [] \<and> 6 \<le> length ?l \<and> (length ?l - 1) mod 5 = 0
            \<and> chunk_length (hd ?l) = Some n \<and> b85 (tl ?l) = Inl e \<longrightarrow>
          binary_data_loop b85 src dat = Inl e"
    using e r by (subst (asm) binary_data_loop.simps) (auto simp: Let_def)
  have 6: "\<forall>g\<in>set good. \<exists>k e. chunk_length (hd (strip g)) = Some k \<and> 1 \<le> k \<and> k \<le> 52
              \<and> b85 (tl (strip g)) = Inr e \<and> k \<le> length e
              \<and> the (data_chunk b85 g) = take k e \<and> length (the (data_chunk b85 g)) = k"
  proof
    fix g assume "g \<in> set good"
    with assms(2) obtain ch where ch: "data_chunk b85 g = Some ch" by auto
    from data_chunk_length [OF ch] chunk_length_range ch
    show "\<exists>k e. chunk_length (hd (strip g)) = Some k \<and> 1 \<le> k \<and> k \<le> 52
              \<and> b85 (tl (strip g)) = Inr e \<and> k \<le> length e
              \<and> the (data_chunk b85 g) = take k e \<and> length (the (data_chunk b85 g)) = k"
      by fastforce
  qed
  from 1 2 3 4 5 6 chunk_length_upper chunk_length_lower chunk_length_letters [of c] show ?thesis by blast
qed


theorem binary_data_lines_witness:
  "pending \<lparr>lb_f = [''B0000100002\<newline>'', ''\<newline>'', ''x''], buffered = []\<rparr>
      = [''B0000100002\<newline>''] @ [''\<newline>'', ''x'']
   \<and> data_chunk base85_decode ''B0000100002\<newline>'' = Some [CHR 0x00, CHR 0x00]
   \<and> binary_data_loop base85_decode \<lparr>lb_f = [''B0000100002\<newline>'', ''\<newline>'', ''x''], buffered = []\<rparr> []
       = Inr ([[CHR 0x00, CHR 0x00]], \<lparr>lb_f = [''x''], buffered = []\<rparr>)
   \<and> chunk_length (CHR ''J'') = Some 10
   \<and> base85_decode ''00001'' = Inr [CHR 0x00, CHR 0x00, CHR 0x00, CHR 0x01]
   \<and> binary_data_loop base85_decode \<lparr>lb_f = [''B0000100002\<newline>'', ''J00001\<newline>'', ''\<newline>''], buffered = []\<rparr> []
       = Inl (Raised ''BadBinaryHunk'' ''corrupt binary patch - length mismatch'')
   \<and> binary_data_loop base85_decode \<lparr>lb_f = [''B0000100002\<newline>'', ''J0000\<newline>'', ''\<newline>''], buffered = []\<rparr> []
       = Inl (Raised ''BadBinaryHunk'' ''corrupt binary patch - bad line length'')
   \<and> chunk_length (CHR ''1'') = None
   \<and> binary_data_loop base85_decode \<lparr>lb_f = [''B0000100002\<newline>'', ''100001\<newline>'', ''\<newline>''], buffered = []\<rparr> []
       = Inl (Raised ''BadBinaryHunk'' ''corrupt binary patch - bad length byte'')
   \<and> base85_decode ''0000,'' = Inl ValueError
   \<and> binary_data_loop base85_decode \<lparr>lb_f = [''B0000100002\<newline>'', ''A0000,\<newline>'', ''\<newline>''], buffered = []\<rparr> [] = Inl ValueError"
  using binary_data_lines [where src = "\<lparr>lb_f = [''B0000100002\<newline>'', ''\<newline>'', ''x''], buffered = []\<rparr>"
          and good = "[''B0000100002\<newline>'']" and rest = "[''\<newline>'', ''x'']"
          and ?b85.0 = base85_decode and dat = "[]" and n = 10 and d = "[CHR 0x00, CHR 0x00, CHR 0x00, CHR 0x01]"
          and e = ValueError and c = "CHR ''J''"]
        binary_data_lines [where src = "\<lparr>lb_f = [''B0000100002\<newline>'', ''J00001\<newline>'', ''\<newline>''], buffered = []\<rparr>" and good = "[''B0000100002\<newline>'']" and rest = "[''J00001\<newline>'', ''\<newline>'']"
          and ?b85.0 = base85_decode and dat = "[]" and n = 10 and d = "[CHR 0x00, CHR 0x00, CHR 0x00, CHR 0x01]"
          and e = ValueError and c = "CHR ''J''"]
        binary_data_lines [where src = "\<lparr>lb_f = [''B0000100002\<newline>'', ''J0000\<newline>'', ''\<newline>''], buffered = []\<rparr>" and good = "[''B0000100002\<newline>'']" and rest = "[''J0000\<newline>'', ''\<newline>'']"
          and ?b85.0 = base85_decode and dat = "[]" and n = 10 and d = "[CHR 0x00, CHR 0x00, CHR 0x00, CHR 0x01]"
          and e = ValueError and c = "CHR ''J''"]
        binary_data_lines [where src = "\<lparr>lb_f = [''B0000100002\<newline>'', ''100001\<newline>'', ''\<newline>''], buffered = []\<rparr>" and good = "[''B0000100002\<newline>'']" and rest = "[''100001\<newline>'', ''\<newline>'']"
          and ?b85.0 = base85_decode and dat = "[]" and n = 10 and d = "[CHR 0x00, CHR 0x00, CHR 0x00, CHR 0x01]"
          and e = ValueError and c = "CHR ''J''"]
        binary_data_lines [where src = "\<lparr>lb_f = [''B0000100002\<newline>'', ''A0000,\<newline>'', ''\<newline>''], buffered = []\<rparr>" and good = "[''B0000100002\<newline>'']" and rest = "[''A0000,\<newline>'', ''\<newline>'']"
          and ?b85.0 = base85_decode and dat = "[]" and n = 10 and d = "[CHR 0x00, CHR 0x00, CHR 0x00, CHR 0x01]"
          and e = ValueError and c = "CHR ''J''"]
  by (simp add: binary_eval index_of.simps)

text \<open>
  Claim C10. Whenever \<open>_parse_binary\<close> returns, the source of the change is the default
  file name if it was \<open>None\<close> and is unchanged otherwise, and likewise the destination,
  so both are set when the default file name is; the class of the change is unchanged,
  \<open>binary\<close> is set, and the hunks are the earlier ones followed by the forward hunk and
  at most one reverse hunk. The two assignments depend on the change and the default file
  name only, not on the hunks parsed after them.
\<close>

theorem parse_binary_endpoints:
  assumes "parse_binary b85 inflate change src default_filename = Inr (change', src')"
  shows "source change' = (if source change = None then default_filename else source change)
       \<and> dest change' = (if dest change = None then default_filename else dest change)
       \<and> (default_filename \<noteq> None \<longrightarrow> source change' \<noteq> None \<and> dest change' \<noteq> None)
       \<and> binary change' \<and> cls change' = cls change
       \<and> (\<exists>fwd more. hunks change' = hunks change @ Binary fwd # more \<and> \<not> reverse fwd
              \<and> (more = [] \<or> (\<exists>r. more = [Binary r] \<and> reverse r)))"
proof -
  let ?c1 = "if source change = None then change\<lparr>source := default_filename\<rparr> else change"
  let ?c2 = "if dest ?c1 = None then ?c1\<lparr>dest := default_filename\<rparr> else ?c1"
  from assms obtain fwd s1 where f: "parse_binary_hunk b85 inflate src False = Inr (Some fwd, s1)"
    by (auto simp: parse_binary_def Let_def split: sum.splits option.splits)
  from assms f obtain bw where
    b: "parse_binary_hunk b85 inflate s1 True = Inr (bw, src')" and
    c: "change' = (case bw of None \<Rightarrow> ?c2\<lparr>hunks := hunks ?c2 @ [Binary fwd]\<rparr>
                   | Some r \<Rightarrow> ?c2\<lparr>hunks := hunks ?c2 @ [Binary fwd] @ [Binary r]\<rparr>)\<lparr>binary := True\<rparr>"
    by (auto simp: parse_binary_def Let_def split: sum.splits option.splits)
  have rf: "\<not> reverse fwd" using parse_binary_hunk_reverse [OF f] by simp
  show ?thesis
  proof (cases bw)
    case None
    with c rf show ?thesis by auto
  next
    case (Some r)
    with b have "reverse r" using parse_binary_hunk_reverse [of b85 inflate s1 True r src'] by simp
    with c rf Some show ?thesis by auto
  qed
qed

theorem parse_binary_endpoints_witness:
  "parse_binary base85_decode Some (new_Change None (Some (S ''d'')))
      \<lparr>lb_f = [''literal 2\<newline>'', ''B0000100002\<newline>'', ''\<newline>'', ''x''], buffered = []\<rparr> (Some (S ''f''))
     = Inr ((new_Change (Some (S ''f'')) (Some (S ''d'')))\<lparr>binary := True, hunks :=
              [Binary \<lparr>blength = 2, hunk_method = ''literal'', data = [CHR 0x00, CHR 0x00],
                       reverse = False\<rparr>]\<rparr>,
            \<lparr>lb_f = [], buffered = [''x'']\<rparr>)
   \<and> source ((new_Change (Some (S ''f'')) (Some (S ''d'')))\<lparr>binary := True, hunks :=
              [Binary \<lparr>blength = 2, hunk_method = ''literal'', data = [CHR 0x00, CHR 0x00],
                       reverse = False\<rparr>]\<rparr>) = Some (S ''f'')
   \<and> dest ((new_Change (Some (S ''f'')) (Some (S ''d'')))\<lparr>binary := True, hunks :=
              [Binary \<lparr>blength = 2, hunk_method = ''literal'', data = [CHR 0x00, CHR 0x00],
                       reverse = False\<rparr>]\<rparr>) = Some (S ''d'')"
  using parse_binary_endpoints [of base85_decode Some "new_Change None (Some (S ''d''))"
      "\<lparr>lb_f = [''literal 2\<newline>'', ''B0000100002\<newline>'', ''\<newline>'', ''x''], buffered = []\<rparr>" "Some (S ''f'')"
      "(new_Change (Some (S ''f'')) (Some (S ''d'')))\<lparr>binary := True, hunks :=
              [Binary \<lparr>blength = 2, hunk_method = ''literal'', data = [CHR 0x00, CHR 0x00],
                       reverse = False\<rparr>]\<rparr>"
      "\<lparr>lb_f = [], buffered = [''x'']\<rparr>"]
  by (simp add: parse_binary_def parse_binary_hunk_def METHOD_LINE_RE_def is_word_def
        is_digit_def re_spaces_def re_digits_def py_int_def new_Change_def binary_eval)

end
